theory Spec2Isabelle
  imports Main
begin

section \<open>JavaScript values\<close>

text \<open>
  A JavaScript string is a sequence of UTF-16 code units; \<open>length\<close>, equality,
  \<open>includes\<close> and \<open>replace\<close> all work on code units. The literals of the source that
  are not ASCII are written out as their code units.
\<close>

type_synonym jsstring = "nat list"

definition asc :: "string \<Rightarrow> jsstring" where
  "asc s = map of_char s"

text \<open>
  The values that flow through the modelled code: JSON scalars, \<open>undefined\<close>, and plain
  objects without a \<open>toString\<close> of their own (\<open>JObject\<close>: a cell record of the grid, or an
  object-valued parameter), of which only the conversions are observed. Numbers are the
  integers that a double holds exactly and prints in plain decimal (no fractions, no
  infinities, magnitude below \<open>2^53\<close>, so that arithmetic on them does not round);
  \<open>NaN\<close> only arises as the result of a conversion and is \<open>None\<close> there.
\<close>

datatype jsval = JUndefined | JNull | JBool bool | JNum int | JStr jsstring | JObject

fun truthy :: "jsval \<Rightarrow> bool" where
  "truthy JUndefined = False"
| "truthy JNull = False"
| "truthy (JBool b) = b"
| "truthy (JNum n) = (n \<noteq> 0)"
| "truthy (JStr s) = (s \<noteq> [])"
| "truthy JObject = True"

definition js_or :: "jsval \<Rightarrow> jsval \<Rightarrow> jsval" where
  \<comment> \<open>\<open>a || b\<close>\<close>
  "js_or a b = (if truthy a then a else b)"

definition js_coalesce :: "jsval \<Rightarrow> jsval \<Rightarrow> jsval" where
  \<comment> \<open>\<open>a ?? b\<close>\<close>
  "js_coalesce a b = (if a = JUndefined \<or> a = JNull then b else a)"

definition dflt :: "jsval \<Rightarrow> jsval \<Rightarrow> jsval" where
  \<comment> \<open>a default parameter value: used when the argument is \<open>undefined\<close>\<close>
  "dflt a d = (if a = JUndefined then d else a)"

fun dec :: "nat \<Rightarrow> jsstring" where
  "dec n = (if n < 10 then [48 + n] else dec (n div 10) @ [48 + n mod 10])"

declare dec.simps [simp del]

definition string_of_int :: "int \<Rightarrow> jsstring" where
  "string_of_int n = (if n < 0 then 45 # dec (nat (- n)) else dec (nat n))"

fun js_String :: "jsval \<Rightarrow> jsstring" where
  \<comment> \<open>\<open>String(x)\<close>, and \<open>${x}\<close> in a template literal\<close>
  "js_String JUndefined = asc ''undefined''"
| "js_String JNull = asc ''null''"
| "js_String (JBool b) = (if b then asc ''true'' else asc ''false'')"
| "js_String (JNum n) = string_of_int n"
| "js_String (JStr s) = s"
| "js_String JObject = asc ''[object Object]''"

definition is_ws :: "nat \<Rightarrow> bool" where
  \<comment> \<open>white space and line terminators, as \<open>trim\<close> and numeric conversion strip them\<close>
  "is_ws c = (c \<in> {9, 10, 11, 12, 13, 32, 160, 5760, 8232, 8233, 8239, 8287, 12288, 65279}
              \<or> (8192 \<le> c \<and> c \<le> 8202))"

definition js_trim :: "jsstring \<Rightarrow> jsstring" where
  "js_trim s = rev (dropWhile is_ws (rev (dropWhile is_ws s)))"

definition is_digit :: "nat \<Rightarrow> bool" where
  "is_digit c = (48 \<le> c \<and> c \<le> 57)"

definition digits_value :: "jsstring \<Rightarrow> nat" where
  "digits_value ds = foldl (\<lambda>a c. 10 * a + (c - 48)) 0 ds"

definition all_digits :: "jsstring \<Rightarrow> bool" where
  "all_digits ds = (ds \<noteq> [] \<and> list_all is_digit ds)"

definition str_to_number :: "jsstring \<Rightarrow> int option" where
  \<comment> \<open>\<open>Number(s)\<close> on the integers: surrounding white space is dropped, the empty string
      is 0, an optionally signed run of decimal digits is its value, and a text that is no
      integer literal is read as \<open>NaN\<close> (the texts of fractions, exponents, hexadecimal
      numbers and infinities denote numbers outside the integers modelled)\<close>
  "str_to_number s =
     (let t = js_trim s in
      case t of
        [] \<Rightarrow> Some 0
      | c # r \<Rightarrow>
          if c = 45 \<and> all_digits r then Some (- int (digits_value r))
          else if c = 43 \<and> all_digits r then Some (int (digits_value r))
          else if all_digits t then Some (int (digits_value t))
          else None)"

fun js_Number :: "jsval \<Rightarrow> int option" where
  "js_Number JUndefined = None"
| "js_Number JNull = Some 0"
| "js_Number (JBool b) = Some (if b then 1 else 0)"
| "js_Number (JNum n) = Some n"
| "js_Number (JStr s) = str_to_number s"
| "js_Number JObject = None"

definition num_lt :: "int option \<Rightarrow> int option \<Rightarrow> bool" where
  \<comment> \<open>\<open><\<close> on numbers: false as soon as one side is \<open>NaN\<close>\<close>
  "num_lt a b = (case (a, b) of (Some x, Some y) \<Rightarrow> x < y | _ \<Rightarrow> False)"

fun unbool :: "jsval \<Rightarrow> jsval" where
  "unbool (JBool b) = JNum (if b then 1 else 0)"
| "unbool x = x"

fun loose_eq_nb :: "jsval \<Rightarrow> jsval \<Rightarrow> bool" where
  "loose_eq_nb JUndefined y = (y = JUndefined \<or> y = JNull)"
| "loose_eq_nb JNull y = (y = JUndefined \<or> y = JNull)"
| "loose_eq_nb (JNum a) (JNum b) = (a = b)"
| "loose_eq_nb (JNum a) (JStr s) = (str_to_number s = Some a)"
| "loose_eq_nb (JStr s) (JNum a) = (str_to_number s = Some a)"
| "loose_eq_nb (JStr s) (JStr t) = (s = t)"
| "loose_eq_nb (JStr s) JObject = (s = asc ''[object Object]'')"
| "loose_eq_nb JObject (JStr s) = (s = asc ''[object Object]'')"
| "loose_eq_nb x y = False"

definition js_loose_eq :: "jsval \<Rightarrow> jsval \<Rightarrow> bool" where
  \<comment> \<open>\<open>a == b\<close>; a boolean operand is converted to a number first, and two objects are
      equal only when they are the same object, which an object of the grid and an object
      of a command never are\<close>
  "js_loose_eq a b =
     (case (a, b) of
        (JBool x, JBool y) \<Rightarrow> x = y
      | _ \<Rightarrow> loose_eq_nb (unbool a) (unbool b))"

fun starts_with :: "jsstring \<Rightarrow> jsstring \<Rightarrow> bool" where
  "starts_with s [] = True"
| "starts_with [] (p # ps) = False"
| "starts_with (c # cs) (p # ps) = (c = p \<and> starts_with cs ps)"

fun js_includes :: "jsstring \<Rightarrow> jsstring \<Rightarrow> bool" where
  \<comment> \<open>\<open>s.includes(p)\<close>\<close>
  "js_includes [] p = (p = [])"
| "js_includes (c # cs) p = (starts_with (c # cs) p \<or> js_includes cs p)"

section \<open>The spreadsheet engine as the capability layer sees it\<close>

text \<open>
  \<open>getSheetData()\<close> yields an array of rows of cells; an empty cell is \<open>null\<close> (\<open>None\<close>),
  a filled one an object with a value \<open>v\<close> and a display text \<open>m\<close> (\<open>undefined\<close> when the
  field is absent). A sheet without data yields \<open>null\<close>.
\<close>

record cell =
  v :: jsval
  m :: jsval

type_synonym row = "cell option list"
type_synonym grid = "row list"

datatype slot = SUndefined | SNull | SCell cell

definition row_at :: "row \<Rightarrow> nat \<Rightarrow> slot" where
  \<comment> \<open>\<open>row[c]\<close>\<close>
  "row_at rw c =
     (if c < length rw then (case rw ! c of None \<Rightarrow> SNull | Some x \<Rightarrow> SCell x)
      else SUndefined)"

definition cell_at :: "grid \<Rightarrow> nat \<Rightarrow> nat \<Rightarrow> slot" where
  \<comment> \<open>\<open>data[r]?.[c]\<close>\<close>
  "cell_at data r c = (if r < length data then row_at (data ! r) c else SUndefined)"

fun opt_v :: "slot \<Rightarrow> jsval" where
  \<comment> \<open>\<open>cell?.v\<close>\<close>
  "opt_v (SCell x) = v x"
| "opt_v s = JUndefined"

fun opt_m :: "slot \<Rightarrow> jsval" where
  \<comment> \<open>\<open>cell?.m\<close>\<close>
  "opt_m (SCell x) = m x"
| "opt_m s = JUndefined"

fun slot_val :: "slot \<Rightarrow> jsval" where
  \<comment> \<open>the slot itself as a value\<close>
  "slot_val SUndefined = JUndefined"
| "slot_val SNull = JNull"
| "slot_val (SCell x) = JObject"

definition first_row_length :: "grid \<Rightarrow> nat" where
  \<comment> \<open>\<open>data[0]?.length || 0\<close>\<close>
  "first_row_length data = (case data of [] \<Rightarrow> 0 | rw # _ \<Rightarrow> length rw)"

text \<open>
  What the capability layer asks of the engine, in the order it asks. The engine's own
  reaction to a request belongs to the widget and is outside this development; a request is
  taken to return normally.
\<close>

datatype border_style = Weight nat | Inherited jsstring

record border_value =
  rangeType :: jsstring
  borderType :: jsstring
  style :: border_style
  borderColor :: jsstring

datatype call =
    SetCellValue nat nat "(jsstring \<times> jsval) list"
  | Refresh
  | SetFrozen jsstring "int option" "int option"
  | SetColumnWidth "nat list" nat
  | SetRangeShow "int \<times> int" "int \<times> int"
  | SetBorderInfo border_value
  | HideRow "nat list"
  | ShowRow "nat list"
  | OrderByRow nat jsval

record engine =
  getSheetData :: "grid option"
  calls :: "call list"

definition request :: "call \<Rightarrow> engine \<Rightarrow> engine" where
  "request k sheet = sheet\<lparr>calls := calls sheet @ [k]\<rparr>"

text \<open>\<open>window.luckysheet\<close>: the engine, or nothing.\<close>

type_synonym window = "engine option"

record result =
  success :: bool
  message :: "jsstring option"
  error :: "jsstring option"

definition ok :: "jsstring \<Rightarrow> result" where
  "ok msg = \<lparr>success = True, message = Some msg, error = None\<rparr>"

definition fail :: "jsstring \<Rightarrow> result" where
  "fail e = \<lparr>success = False, message = None, error = Some e\<rparr>"

definition sheet_not_available :: jsstring where
  "sheet_not_available = asc ''Sheet not available''"

definition no_data :: jsstring where
  "no_data = asc ''No data''"

definition column_not_found :: "jsval \<Rightarrow> jsstring" where
  \<comment> \<open>the template "cannot find column: ${columnName}"\<close>
  "column_not_found columnName =
     [25214, 19981, 21040, 21015, 58, 32] @ js_String columnName"

section \<open>The capability layer (sheetController.js)\<close>

text \<open>
  Each capability starts with the guard on the sheet handle and runs its body inside
  \<open>try\<close>/\<open>catch\<close>, returning \<open>{success: false, error: e.message}\<close> for an exception.
  With the engine's requests returning normally, the only exception a body raises on the
  values modelled is the one of \<open>showAllRows\<close> reading \<open>data.length\<close> of \<open>null\<close>; it
  is the only place where the \<open>catch\<close> branch appears below. A capability takes the sheet
  handle and returns its result and the handle.
\<close>

subsection \<open>setHeaderStyle\<close>

function header_loop :: "jsval \<Rightarrow> jsval \<Rightarrow> nat \<Rightarrow> nat \<Rightarrow> engine \<Rightarrow> engine" where
  "header_loop bold bgColor colCount c sheet =
     (if c < colCount then
        let s1 = (if truthy bold
                  then request (SetCellValue 0 c [(asc ''bl'', JNum 1)]) sheet else sheet);
            s2 = (if truthy bgColor
                  then request (SetCellValue 0 c [(asc ''bg'', bgColor)]) s1 else s1)
        in header_loop bold bgColor colCount (Suc c) s2
      else sheet)"
  by pat_completeness auto
termination
  by (relation "measure (\<lambda>(bold, bgColor, colCount, c, sheet). colCount - c)") auto

declare header_loop.simps [simp del]

definition header_style_set :: "jsval \<Rightarrow> jsval \<Rightarrow> jsstring" where
  \<comment> \<open>the template "header style set: bold=${bold}, background=${bgColor}"\<close>
  "header_style_set bold bgColor =
     [24050, 35774, 32622, 34920, 22836, 26679, 24335, 58, 32, 21152, 31895, 61]
     @ js_String bold @ [44, 32, 32972, 26223, 33394, 61] @ js_String bgColor"

definition setHeaderStyle :: "jsval \<Rightarrow> jsval \<Rightarrow> window \<Rightarrow> result \<times> window" where
  "setHeaderStyle bold0 bgColor0 w =
     (let bold = dflt bold0 (JBool True);
          bgColor = dflt bgColor0 (JStr (asc ''#e8e8e8''))
      in case w of
           None \<Rightarrow> (fail sheet_not_available, w)
         | Some sheet \<Rightarrow>
             (case getSheetData sheet of
                None \<Rightarrow> (fail no_data, w)
              | Some data \<Rightarrow>
                  if length data = 0 then (fail no_data, w)
                  else
                    let colCount = first_row_length data;
                        s1 = header_loop bold bgColor colCount 0 sheet;
                        s2 = request Refresh s1
                    in (ok (header_style_set bold bgColor), Some s2)))"

subsection \<open>freezeColumns, freezeRows\<close>

definition minus_one :: "jsval \<Rightarrow> int option" where
  \<comment> \<open>\<open>count - 1\<close>\<close>
  "minus_one count = map_option (\<lambda>n. n - 1) (js_Number count)"

definition frozen_columns :: "jsval \<Rightarrow> jsstring" where
  \<comment> \<open>the template "froze the first ${count} columns"\<close>
  "frozen_columns count = [24050, 20923, 32467, 21069, 32] @ js_String count @ [32, 21015]"

definition frozen_rows :: "jsval \<Rightarrow> jsstring" where
  \<comment> \<open>the template "froze the first ${count} rows"\<close>
  "frozen_rows count = [24050, 20923, 32467, 21069, 32] @ js_String count @ [32, 34892]"

definition freezeColumns :: "jsval \<Rightarrow> window \<Rightarrow> result \<times> window" where
  "freezeColumns count0 w =
     (let count = dflt count0 (JNum 1)
      in case w of
           None \<Rightarrow> (fail sheet_not_available, w)
         | Some sheet \<Rightarrow>
             (ok (frozen_columns count),
              Some (request (SetFrozen (asc ''rangeBoth'') (Some 0) (minus_one count)) sheet)))"

definition freezeRows :: "jsval \<Rightarrow> window \<Rightarrow> result \<times> window" where
  "freezeRows count0 w =
     (let count = dflt count0 (JNum 1)
      in case w of
           None \<Rightarrow> (fail sheet_not_available, w)
         | Some sheet \<Rightarrow>
             (ok (frozen_rows count),
              Some (request (SetFrozen (asc ''rangeRow'') (minus_one count) (Some 0)) sheet)))"

subsection \<open>autoFitColumnWidth\<close>

definition text_width :: "grid \<Rightarrow> nat \<Rightarrow> nat \<Rightarrow> nat" where
  "text_width data r c =
     (let cell = cell_at data r c;
          value = js_or (js_or (opt_v cell) (opt_m cell)) (JStr [])
      in length (js_String value) * 10 + 20)"

function width_loop :: "grid \<Rightarrow> nat \<Rightarrow> nat \<Rightarrow> nat \<Rightarrow> nat" where
  "width_loop data c r maxWidth =
     (if r < min (length data) 100 then
        width_loop data c (Suc r) (max maxWidth (min (text_width data r c) 300))
      else maxWidth)"
  by pat_completeness auto
termination
  by (relation "measure (\<lambda>(data, c, r, maxWidth). min (length data) 100 - r)") auto

declare width_loop.simps [simp del]

function autofit_loop :: "grid \<Rightarrow> nat \<Rightarrow> nat \<Rightarrow> engine \<Rightarrow> engine" where
  "autofit_loop data colCount c sheet =
     (if c < colCount then
        autofit_loop data colCount (Suc c)
          (request (SetColumnWidth [c] (width_loop data c 0 50)) sheet)
      else sheet)"
  by pat_completeness auto
termination
  by (relation "measure (\<lambda>(data, colCount, c, sheet). colCount - c)") auto

declare autofit_loop.simps [simp del]

definition widths_adjusted :: jsstring where
  \<comment> \<open>"all column widths adjusted"\<close>
  "widths_adjusted = [24050, 33258, 21160, 35843, 25972, 25152, 26377, 21015, 23485]"

definition autoFitColumnWidth :: "window \<Rightarrow> result \<times> window" where
  "autoFitColumnWidth w =
     (case w of
        None \<Rightarrow> (fail sheet_not_available, w)
      | Some sheet \<Rightarrow>
          (case getSheetData sheet of
             None \<Rightarrow> (fail no_data, w)
           | Some data \<Rightarrow>
               if length data = 0 then (fail no_data, w)
               else
                 let colCount = first_row_length data;
                     s1 = autofit_loop data colCount 0 sheet;
                     s2 = request Refresh s1
                 in (ok widths_adjusted, Some s2)))"

subsection \<open>Column lookup\<close>

definition header_text :: "slot \<Rightarrow> jsval" where
  \<comment> \<open>\<open>headerRow[c]?.v || headerRow[c]?.m || headerRow[c]\<close>\<close>
  "header_text s = js_or (js_or (opt_v s) (opt_m s)) (slot_val s)"

definition header_matches :: "row \<Rightarrow> jsval \<Rightarrow> nat \<Rightarrow> bool" where
  \<comment> \<open>\<open>String(cellValue) === columnName\<close>\<close>
  "header_matches headerRow columnName c =
     (JStr (js_String (header_text (row_at headerRow c))) = columnName)"

function find_column :: "row \<Rightarrow> jsval \<Rightarrow> nat \<Rightarrow> nat option" where
  \<comment> \<open>the lookup loop from index \<open>c\<close> on; \<open>None\<close> is \<open>colIndex === -1\<close>\<close>
  "find_column headerRow columnName c =
     (if c < length headerRow then
        if header_matches headerRow columnName c then Some c
        else find_column headerRow columnName (Suc c)
      else None)"
  by pat_completeness auto
termination
  by (relation "measure (\<lambda>(headerRow, columnName, c). length headerRow - c)") auto

declare find_column.simps [simp del]

subsection \<open>setConditionalFormat\<close>

definition matches :: "jsval \<Rightarrow> jsval \<Rightarrow> jsval \<Rightarrow> bool" where
  \<comment> \<open>the \<open>switch (operator)\<close>\<close>
  "matches operator cellValue value =
     (if operator = JStr (asc ''<'') then num_lt (js_Number cellValue) (js_Number value)
      else if operator = JStr (asc ''>'') then num_lt (js_Number value) (js_Number cellValue)
      else if operator = JStr (asc ''='') \<or> operator = JStr (asc ''=='')
        then js_loose_eq cellValue value
      else if operator = JStr (asc ''contains'')
        then js_includes (js_String cellValue) (js_String value)
      else False)"

definition format_style :: "jsval \<Rightarrow> jsval \<Rightarrow> (jsstring \<times> jsval) list" where
  "format_style color bgColor =
     (if truthy color then [(asc ''fc'', color)] else [])
     @ (if truthy bgColor then [(asc ''bg'', bgColor)] else [])"

definition format_value :: "slot \<Rightarrow> jsval" where
  \<comment> \<open>\<open>cell?.v ?? cell?.m ?? cell\<close>\<close>
  "format_value cell = js_coalesce (js_coalesce (opt_v cell) (opt_m cell)) (slot_val cell)"

function format_loop ::
  "grid \<Rightarrow> nat \<Rightarrow> jsval \<Rightarrow> jsval \<Rightarrow> jsval \<Rightarrow> jsval \<Rightarrow> nat \<Rightarrow> nat \<times> engine \<Rightarrow> nat \<times> engine" where
  "format_loop data colIndex operator value color bgColor r (matchCount, sheet) =
     (if r < length data then
        if matches operator (format_value (cell_at data r colIndex)) value then
          format_loop data colIndex operator value color bgColor (Suc r)
            (Suc matchCount,
             request (SetCellValue r colIndex (format_style color bgColor)) sheet)
        else format_loop data colIndex operator value color bgColor (Suc r) (matchCount, sheet)
      else (matchCount, sheet))"
  by pat_completeness auto
termination
  by (relation "measure (\<lambda>(data, colIndex, operator, value, color, bgColor, r, acc).
                           length data - r)") auto

declare format_loop.simps [simp del]

definition format_applied :: "nat \<Rightarrow> jsstring" where
  \<comment> \<open>the template "conditional format applied to ${matchCount} cells"\<close>
  "format_applied matchCount =
     [24050, 23545, 32] @ dec matchCount
     @ [32, 20010, 21333, 20803, 26684, 24212, 29992, 26465, 20214, 26684, 24335]"

definition setConditionalFormat ::
  "jsval \<Rightarrow> jsval \<Rightarrow> jsval \<Rightarrow> jsval \<Rightarrow> jsval \<Rightarrow> window \<Rightarrow> result \<times> window" where
  "setConditionalFormat columnName operator value color0 bgColor0 w =
     (let color = dflt color0 JNull; bgColor = dflt bgColor0 JNull
      in case w of
           None \<Rightarrow> (fail sheet_not_available, w)
         | Some sheet \<Rightarrow>
             (case getSheetData sheet of
                None \<Rightarrow> (fail no_data, w)
              | Some data \<Rightarrow>
                  if length data = 0 then (fail no_data, w)
                  else
                    (case find_column (data ! 0) columnName 0 of
                       None \<Rightarrow> (fail (column_not_found columnName), w)
                     | Some colIndex \<Rightarrow>
                         let (matchCount, s1) =
                               format_loop data colIndex operator value color bgColor 1 (0, sheet);
                             s2 = request Refresh s1
                         in (ok (format_applied matchCount), Some s2))))"

subsection \<open>setBorder\<close>

text \<open>
  \<open>styleMap[outerStyle]\<close> reads a property of an object literal: one of its own three
  keys, or else a member that every plain object inherits from \<open>Object.prototype\<close>. The
  inherited members are functions or objects, hence truthy.
\<close>

definition styleMap :: "(jsstring \<times> nat) list" where
  "styleMap = [(asc ''thin'', 1), (asc ''medium'', 2), (asc ''thick'', 3)]"

definition object_prototype_members :: "jsstring list" where
  "object_prototype_members =
     [asc ''constructor'', asc ''hasOwnProperty'', asc ''isPrototypeOf'',
      asc ''propertyIsEnumerable'', asc ''toLocaleString'', asc ''toString'',
      asc ''valueOf'', asc ''__proto__'', asc ''__defineGetter__'',
      asc ''__defineSetter__'', asc ''__lookupGetter__'', asc ''__lookupSetter__'']"

definition styleMap_get :: "jsval \<Rightarrow> border_style option" where
  \<comment> \<open>\<open>styleMap[key]\<close>; \<open>None\<close> is \<open>undefined\<close>\<close>
  "styleMap_get key =
     (let k = js_String key in
      case map_of styleMap k of
        Some n \<Rightarrow> Some (Weight n)
      | None \<Rightarrow> if k \<in> set object_prototype_members then Some (Inherited k) else None)"

definition border_weight :: "jsval \<Rightarrow> border_style" where
  \<comment> \<open>\<open>styleMap[outerStyle] || 2\<close>\<close>
  "border_weight outerStyle =
     (case styleMap_get outerStyle of
        Some (Weight n) \<Rightarrow> if n \<noteq> 0 then Weight n else Weight 2
      | Some (Inherited k) \<Rightarrow> Inherited k
      | None \<Rightarrow> Weight 2)"

definition border_type :: "jsval \<Rightarrow> jsstring" where
  "border_type type =
     (if type = JStr (asc ''outer'') then asc ''border-outside''
      else if type = JStr (asc ''inner'') then asc ''border-inside''
      else asc ''border-all'')"

definition border_added :: "jsval \<Rightarrow> jsstring" where
  \<comment> \<open>the template "added ${type} border"\<close>
  "border_added type = [24050, 28155, 21152] @ js_String type @ [36793, 26694]"

definition setBorder :: "jsval \<Rightarrow> jsval \<Rightarrow> jsval \<Rightarrow> window \<Rightarrow> result \<times> window" where
  "setBorder type0 outerStyle0 innerStyle0 w =
     (let type = dflt type0 (JStr (asc ''all''));
          outerStyle = dflt outerStyle0 (JStr (asc ''medium''));
          innerStyle = dflt innerStyle0 (JStr (asc ''thin''))
      in case w of
           None \<Rightarrow> (fail sheet_not_available, w)
         | Some sheet \<Rightarrow>
             (case getSheetData sheet of
                None \<Rightarrow> (fail no_data, w)
              | Some data \<Rightarrow>
                  if length data = 0 then (fail no_data, w)
                  else
                    let rowCount = length data;
                        colCount = first_row_length data;
                        s1 = request (SetRangeShow (0, int rowCount - 1) (0, int colCount - 1))
                               sheet;
                        borderValue = \<lparr>rangeType = asc ''range'',
                                       borderType = border_type type,
                                       style = border_weight outerStyle,
                                       borderColor = asc ''#000000''\<rparr>;
                        s2 = request (SetBorderInfo borderValue) s1
                    in (ok (border_added type), Some s2)))"

subsection \<open>hideRowsWhere\<close>

definition hide_value :: "slot \<Rightarrow> jsval" where
  \<comment> \<open>\<open>cell?.v ?? cell?.m ?? cell ?? ''\<close>\<close>
  "hide_value cell =
     js_coalesce (js_coalesce (js_coalesce (opt_v cell) (opt_m cell)) (slot_val cell))
       (JStr [])"

function hide_loop :: "grid \<Rightarrow> nat \<Rightarrow> jsval \<Rightarrow> nat \<Rightarrow> nat list \<Rightarrow> nat list" where
  "hide_loop data colIndex contains r rowsToHide =
     (if r < length data then
        if js_includes (js_String (hide_value (cell_at data r colIndex))) (js_String contains)
        then hide_loop data colIndex contains (Suc r) (rowsToHide @ [r])
        else hide_loop data colIndex contains (Suc r) rowsToHide
      else rowsToHide)"
  by pat_completeness auto
termination
  by (relation "measure (\<lambda>(data, colIndex, contains, r, rowsToHide). length data - r)") auto

declare hide_loop.simps [simp del]

definition rows_hidden :: "nat \<Rightarrow> jsval \<Rightarrow> jsstring" where
  \<comment> \<open>the template "hid ${rowsToHide.length} rows containing "${contains}""\<close>
  "rows_hidden n contains =
     [24050, 38544, 34255, 32] @ dec n @ [32, 34892, 21253, 21547, 34]
     @ js_String contains @ [34, 30340, 25968, 25454]"

definition hideRowsWhere :: "jsval \<Rightarrow> jsval \<Rightarrow> window \<Rightarrow> result \<times> window" where
  "hideRowsWhere columnName contains w =
     (case w of
        None \<Rightarrow> (fail sheet_not_available, w)
      | Some sheet \<Rightarrow>
          (case getSheetData sheet of
             None \<Rightarrow> (fail no_data, w)
           | Some data \<Rightarrow>
               if length data = 0 then (fail no_data, w)
               else
                 (case find_column (data ! 0) columnName 0 of
                    None \<Rightarrow> (fail (column_not_found columnName), w)
                  | Some colIndex \<Rightarrow>
                      let rowsToHide = hide_loop data colIndex contains 1 [];
                          s1 = (if length rowsToHide > 0 then request (HideRow rowsToHide) sheet
                                else sheet)
                      in (ok (rows_hidden (length rowsToHide) contains), Some s1))))"

subsection \<open>showAllRows\<close>

definition length_of_null :: jsstring where
  \<comment> \<open>the message of the TypeError that \<open>data.length\<close> raises on \<open>null\<close>\<close>
  "length_of_null = asc ''Cannot read properties of null (reading 'length')''"

definition all_rows_shown :: jsstring where
  \<comment> \<open>"all rows shown"\<close>
  "all_rows_shown = [24050, 26174, 31034, 25152, 26377, 34892]"

definition showAllRows :: "window \<Rightarrow> result \<times> window" where
  "showAllRows w =
     (case w of
        None \<Rightarrow> (fail sheet_not_available, w)
      | Some sheet \<Rightarrow>
          (case getSheetData sheet of
             None \<Rightarrow> (fail length_of_null, w)
           | Some data \<Rightarrow>
               let allRows = [0..<length data]
               in (ok all_rows_shown, Some (request (ShowRow allRows) sheet))))"

subsection \<open>sortByColumn\<close>

definition sorted_by :: "jsval \<Rightarrow> jsval \<Rightarrow> jsstring" where
  \<comment> \<open>the template "sorted by "${columnName}" ascending/descending"\<close>
  "sorted_by columnName ascending =
     [24050, 25353, 34] @ js_String columnName @ [34]
     @ (if truthy ascending then [21319, 24207] else [38477, 24207]) @ [25490, 24207]"

definition sortByColumn :: "jsval \<Rightarrow> jsval \<Rightarrow> window \<Rightarrow> result \<times> window" where
  "sortByColumn columnName ascending0 w =
     (let ascending = dflt ascending0 (JBool True)
      in case w of
           None \<Rightarrow> (fail sheet_not_available, w)
         | Some sheet \<Rightarrow>
             (case getSheetData sheet of
                None \<Rightarrow> (fail no_data, w)
              | Some data \<Rightarrow>
                  if length data = 0 then (fail no_data, w)
                  else
                    (case find_column (data ! 0) columnName 0 of
                       None \<Rightarrow> (fail (column_not_found columnName), w)
                     | Some colIndex \<Rightarrow>
                         let lastCol = (if first_row_length data = 0 then 1
                                        else int (first_row_length data)) - 1;
                             s1 = request (SetRangeShow (1, int (length data) - 1) (0, lastCol))
                                    sheet;
                             s2 = request (OrderByRow colIndex ascending) s1
                         in (ok (sorted_by columnName ascending), Some s2))))"

section \<open>The command executor and the queue poller\<close>

text \<open>
  A command is a JSON object: its properties, by name. Reading a property that is not
  there yields \<open>undefined\<close>.
\<close>

type_synonym command = "(jsstring \<times> jsval) list"

definition field :: "command \<Rightarrow> string \<Rightarrow> jsval" where
  \<comment> \<open>\<open>command.name\<close>\<close>
  "field cmd name = (case map_of cmd (asc name) of Some x \<Rightarrow> x | None \<Rightarrow> JUndefined)"

datatype console_entry =
    LogCommand command
  | WarnUnknown jsval
  | LogReceived nat
  | LogResult result

record ui =
  window :: window
  console :: "console_entry list"

definition log :: "console_entry \<Rightarrow> ui \<Rightarrow> ui" where
  "log e st = st\<lparr>console := console st @ [e]\<rparr>"

definition run :: "(window \<Rightarrow> result \<times> window) \<Rightarrow> ui \<Rightarrow> result \<times> ui" where
  \<comment> \<open>a capability applied to the global sheet handle\<close>
  "run capability st = (let (r, w) = capability (window st) in (r, st\<lparr>window := w\<rparr>))"

definition unknown_command :: "jsval \<Rightarrow> jsstring" where
  \<comment> \<open>the template "unknown command: ${command.action}"\<close>
  "unknown_command a = [26410, 30693, 21629, 20196, 58, 32] @ js_String a"

text \<open>
  The executor logs the command and switches on its action. The capabilities return their
  failures as values, so the \<open>catch\<close> around the switch is not reached.
\<close>

definition executeUICommand :: "command \<Rightarrow> ui \<Rightarrow> result \<times> ui" where
  "executeUICommand cmd st0 =
     (let st = log (LogCommand cmd) st0;
          a = field cmd ''action''
      in if a = JStr (asc ''setHeaderStyle'')
           then run (setHeaderStyle (field cmd ''bold'') (field cmd ''bgColor'')) st
         else if a = JStr (asc ''freezeColumns'')
           then run (freezeColumns (field cmd ''count'')) st
         else if a = JStr (asc ''freezeRows'')
           then run (freezeRows (field cmd ''count'')) st
         else if a = JStr (asc ''autoFitColumnWidth'')
           then run autoFitColumnWidth st
         else if a = JStr (asc ''setConditionalFormat'')
           then run (setConditionalFormat (field cmd ''column'') (field cmd ''operator'')
                       (field cmd ''value'') (field cmd ''color'') (field cmd ''bgColor'')) st
         else if a = JStr (asc ''setBorder'')
           then run (setBorder (field cmd ''type'') (field cmd ''outerStyle'')
                       (field cmd ''innerStyle'')) st
         else if a = JStr (asc ''hideRowsWhere'')
           then run (hideRowsWhere (field cmd ''column'') (field cmd ''contains'')) st
         else if a = JStr (asc ''showAllRows'')
           then run showAllRows st
         else if a = JStr (asc ''sortByColumn'')
           then run (sortByColumn (field cmd ''column'') (field cmd ''ascending'')) st
         else (fail (unknown_command a), log (WarnUnknown a) st))"

text \<open>The nine capability names of the specification's table.\<close>

definition capability_names :: "string list" where
  "capability_names =
     [''setHeaderStyle'', ''freezeColumns'', ''freezeRows'', ''autoFitColumnWidth'',
      ''setConditionalFormat'', ''setBorder'', ''hideRowsWhere'', ''showAllRows'',
      ''sortByColumn'']"

text \<open>
  What a request to the backend comes to: the promise is rejected or the body is not the
  JSON expected (\<open>Failed\<close>, with the message of the exception), or a decoded body.
\<close>

datatype 'a fetched = Failed jsstring | Json 'a

record pending =
  pending_success :: jsval
  pending_commands :: "command list option"

fun run_commands :: "command list \<Rightarrow> ui \<Rightarrow> ui" where
  \<comment> \<open>\<open>for (const cmd of data.commands)\<close>\<close>
  "run_commands [] st = st"
| "run_commands (cmd # rest) st =
     (let (result, st1) = executeUICommand cmd st;
          st2 = log (LogResult result) st1
      in run_commands rest st2)"

definition pollUICommands :: "pending fetched \<Rightarrow> ui \<Rightarrow> ui" where
  \<comment> \<open>one tick of the poller\<close>
  "pollUICommands answer st =
     (case answer of
        Failed e \<Rightarrow> st
      | Json data \<Rightarrow>
          (case pending_commands data of
             None \<Rightarrow> st
           | Some cmds \<Rightarrow>
               if truthy (pending_success data) \<and> length cmds > 0
               then run_commands cmds (log (LogReceived (length cmds)) st)
               else st))"

section \<open>The application state, the response dispatcher and the confirmation protocol\<close>

record confirm =
  temp_table :: jsval
  answer :: jsval

record chat =
  role :: jsstring
  content :: jsstring
  chat_isLoading :: bool
  responseType :: "jsval option"

definition assistant :: "jsstring \<Rightarrow> chat" where
  \<comment> \<open>\<open>{ role: 'assistant', content: c }\<close>\<close>
  "assistant c = \<lparr>role = asc ''assistant'', content = c, chat_isLoading = False,
                  responseType = None\<rparr>"

text \<open>A table of the list: its name, row count and column count.\<close>

type_synonym table = "jsstring \<times> jsval \<times> jsval"

text \<open>
  The columns and the rows of a view reply. The cell data, the row count and the column count
  of the sheet on display are rebuilt from them on every load, so the view is kept as the
  table name together with the payload it was built from.
\<close>

record view_data =
  view_columns :: "jsval list"
  view_rows :: "(jsstring \<times> jsval) list list"

datatype sheet_view = InitialSheet | TableSheet jsval view_data

datatype http_request =
    GetTables
  | PostView jsval
  | PostOverwrite jsval jsval
  | DeleteTable jsstring
  | PostQuery jsstring

record ack =
  ack_success :: jsval
  ack_message :: jsval

record tables_reply =
  tables_success :: jsval
  tables_data :: "table list"

record view_reply =
  view_success :: jsval
  view_payload :: view_data

record query_data =
  data_response_type :: jsval
  data_answer :: jsval
  data_explanation :: jsval
  data_temp_table :: jsval
  data_result :: jsval

record query_reply =
  query_success :: jsval
  query_message :: jsval
  query_payload :: query_data

text \<open>What the backend answers to each request of the client.\<close>

record backend =
  on_query :: "jsstring \<Rightarrow> query_reply fetched"
  on_tables :: "tables_reply fetched"
  on_view :: "jsval \<Rightarrow> view_reply fetched"
  on_overwrite :: "jsval \<Rightarrow> jsval \<Rightarrow> ack fetched"
  on_delete :: "jsstring \<Rightarrow> ack fetched"

datatype app_log = LoadTablesFailed jsstring | LoadDataFailed jsstring | Intercepted jsval

text \<open>
  The state of the component, with what it has shown in alerts, written to the console and
  sent to the backend. A handler reads the state of the render it was created in (its
  closure) and queues its updates; a load that is started is followed to its end.
\<close>

record app =
  activeTab :: jsval
  tables :: "table list"
  sheetData :: sheet_view
  messages :: "chat list"
  inputValue :: jsstring
  isLoading :: bool
  showConfirmModal :: bool
  confirmData :: "confirm option"
  saveAsName :: jsstring
  alerts :: "jsstring list"
  appConsole :: "app_log list"
  requests :: "http_request list"

definition initial_app :: app where
  \<comment> \<open>the \<open>useState\<close> defaults; the first message is the welcome text\<close>
  "initial_app =
     \<lparr>activeTab = JNull, tables = [], sheetData = InitialSheet,
      messages = [assistant [27426, 36814, 20351, 29992, 32, 65, 73, 45, 83, 104, 101, 101,
                             116, 32, 80, 114, 111, 65281, 35831, 19978, 20256, 25968, 25454,
                             25991, 20214, 24320, 22987, 20998, 26512, 12290]],
      inputValue = [], isLoading = False, showConfirmModal = False, confirmData = None,
      saveAsName = [], alerts = [], appConsole = [], requests = []\<rparr>"

definition send :: "http_request \<Rightarrow> app \<Rightarrow> app" where
  "send rq s = s\<lparr>requests := requests s @ [rq]\<rparr>"

definition say :: "chat \<Rightarrow> app \<Rightarrow> app" where
  \<comment> \<open>\<open>setMessages(prev => [...prev, msg])\<close>\<close>
  "say msg s = s\<lparr>messages := messages s @ [msg]\<rparr>"

definition loadTableData :: "backend \<Rightarrow> jsval \<Rightarrow> app \<Rightarrow> app" where
  "loadTableData be tableName s =
     (let s1 = send (PostView tableName) s
      in case on_view be tableName of
           Failed e \<Rightarrow> s1\<lparr>appConsole := appConsole s1 @ [LoadDataFailed e]\<rparr>
         | Json data \<Rightarrow>
             if truthy (view_success data)
             then s1\<lparr>activeTab := tableName,
                     sheetData := TableSheet tableName (view_payload data)\<rparr>
             else s1)"

definition loadTables :: "backend \<Rightarrow> app \<Rightarrow> app \<Rightarrow> app" where
  \<comment> \<open>the second argument is the closure\<close>
  "loadTables be closure s =
     (let s1 = send GetTables s
      in case on_tables be of
           Failed e \<Rightarrow> s1\<lparr>appConsole := appConsole s1 @ [LoadTablesFailed e]\<rparr>
         | Json data \<Rightarrow>
             if truthy (tables_success data) then
               let tableList = tables_data data;
                   s2 = s1\<lparr>tables := tableList\<rparr>
               in if length tableList > 0 \<and> \<not> truthy (activeTab closure) then
                    let first = JStr (fst (tableList ! 0))
                    in loadTableData be first (s2\<lparr>activeTab := first\<rparr>)
                  else s2
             else s1)"

subsection \<open>Resolving a confirmation\<close>

definition overwritten :: "jsval \<Rightarrow> jsstring" where
  \<comment> \<open>the template "table "${activeTab}" overwritten", after a check mark\<close>
  "overwritten tab =
     [9989, 32, 24050, 35206, 30422, 34920, 26684, 32, 34] @ js_String tab @ [34]"

definition overwrite_failed :: "jsval \<Rightarrow> jsstring" where
  \<comment> \<open>"overwrite failed: " + data.message\<close>
  "overwrite_failed msg = [35206, 30422, 22833, 36133, 58, 32] @ js_String msg"

definition request_failed :: jsstring where
  \<comment> \<open>"request failed"\<close>
  "request_failed = [35831, 27714, 22833, 36133]"

definition handleConfirmOverwrite :: "backend \<Rightarrow> app \<Rightarrow> app" where
  "handleConfirmOverwrite be s =
     (case confirmData s of
        None \<Rightarrow> s
      | Some cd \<Rightarrow>
          if \<not> truthy (activeTab s) then s
          else
            let s1 = send (PostOverwrite (temp_table cd) (activeTab s)) s
            in case on_overwrite be (temp_table cd) (activeTab s) of
                 Failed e \<Rightarrow> s1\<lparr>alerts := alerts s1 @ [request_failed]\<rparr>
               | Json data \<Rightarrow>
                   if truthy (ack_success data) then
                     let s2 = say (assistant (overwritten (activeTab s))) s1;
                         s3 = s2\<lparr>showConfirmModal := False, confirmData := None\<rparr>;
                         s4 = loadTables be s s3
                     in loadTableData be (activeTab s) s4
                   else s1\<lparr>alerts := alerts s1 @ [overwrite_failed (ack_message data)]\<rparr>)"

definition abandoned :: jsstring where
  \<comment> \<open>"operation abandoned", after a no-entry sign\<close>
  "abandoned = [55357, 57003, 32, 24050, 25918, 24323, 25805, 20316]"

definition handleConfirmCancel :: "backend \<Rightarrow> app \<Rightarrow> app" where
  "handleConfirmCancel be s =
     (case confirmData s of
        None \<Rightarrow> s
      | Some cd \<Rightarrow>
          let s1 = send (DeleteTable (js_String (temp_table cd))) s;
              s2 = (case on_delete be (js_String (temp_table cd)) of
                      Failed e \<Rightarrow> s1
                    | Json data \<Rightarrow> s1);
              s3 = say (assistant abandoned) s2
          in s3\<lparr>showConfirmModal := False, confirmData := None\<rparr>)"

text \<open>The two states of the confirmation state machine.\<close>

definition Idle :: "app \<Rightarrow> bool" where
  "Idle s = (confirmData s = None \<and> \<not> showConfirmModal s)"

definition PendingConfirmation :: "app \<Rightarrow> bool" where
  "PendingConfirmation s = (confirmData s \<noteq> None \<and> showConfirmModal s)"

text \<open>
  What every setter pair of the source maintains: the modal is never open without a stored
  request. Idle and PendingConfirmation both satisfy it.
\<close>

definition modal_backed :: "app \<Rightarrow> bool" where
  "modal_backed s = (showConfirmModal s \<longrightarrow> confirmData s \<noteq> None)"

subsection \<open>Dispatching a query response\<close>

fun replace_first :: "jsstring \<Rightarrow> jsstring \<Rightarrow> jsstring \<Rightarrow> jsstring" where
  \<comment> \<open>\<open>s.replace(p, r)\<close> for a pattern string: the first occurrence only\<close>
  "replace_first [] p r = (if p = [] then r else [])"
| "replace_first (c # cs) p r =
     (if starts_with (c # cs) p then r @ drop (length p) (c # cs)
      else c # replace_first cs p r)"

definition pending_marker :: jsstring where
  \<comment> \<open>" (awaiting confirmation...)"\<close>
  "pending_marker = [32, 40, 31561, 24453, 30830, 35748, 46, 46, 46, 41]"

definition replace_not_a_function :: jsstring where
  \<comment> \<open>the message of the TypeError raised when \<open>temp_table\<close> has no \<open>replace\<close>\<close>
  "replace_not_a_function = asc ''data.data.temp_table.replace is not a function''"

text \<open>
  The outcome of the \<open>switch\<close> on the response type: an exception with the state reached
  when it was thrown, or the icon, the text and the state. The rendering of a result that
  is an array or an object in the default branch works on the contents of that result,
  which \<open>JObject\<close> does not carry; it is the parameter \<open>legacy\<close>.
\<close>

type_synonym dispatched = "jsstring \<times> app + jsstring \<times> jsval \<times> app"

definition response_answer :: "query_data \<Rightarrow> jsval" where
  \<comment> \<open>\<open>data.data.answer || data.data.explanation || ''\<close>\<close>
  "response_answer d = js_or (js_or (data_answer d) (data_explanation d)) (JStr [])"

definition dispatch ::
  "backend \<Rightarrow> (app \<Rightarrow> app \<Rightarrow> dispatched) \<Rightarrow> query_data \<Rightarrow> app \<Rightarrow> app \<Rightarrow> dispatched" where
  "dispatch be legacy d closure s =
     (let responseType = js_or (data_response_type d) (JStr (asc ''answer''));
          answer = response_answer d;
          result = data_result d
      in if responseType = JStr (asc ''clarify'') then Inr ([10067], answer, s)
         else if responseType = JStr (asc ''error'')
           then Inr ([10060], js_or answer (JStr [25805, 20316, 22833, 36133]), s)
         else if responseType = JStr (asc ''data'') then
           if truthy (data_temp_table d) then
             let s1 = s\<lparr>appConsole := appConsole s @ [Intercepted (data_temp_table d)]\<rparr>;
                 s2 = s1\<lparr>confirmData :=
                           Some \<lparr>temp_table = data_temp_table d, answer = answer\<rparr>\<rparr>
             in case data_temp_table d of
                  JStr t \<Rightarrow>
                    let s3 = s2\<lparr>saveAsName :=
                                 replace_first t (asc ''t_ai_temp_'') [26032, 34920, 26684, 95]\<rparr>;
                        s4 = s3\<lparr>showConfirmModal := True\<rparr>
                    in Inr ([9989], JStr (js_String answer @ pending_marker), s4)
                | _ \<Rightarrow> Inl (replace_not_a_function, s2)
           else
             let resultText = js_or answer (JStr [25968, 25454, 25805, 20316, 23436, 25104]);
                 s1 = loadTables be closure s;
                 s2 = (if truthy (activeTab closure)
                       then loadTableData be (activeTab closure) s1 else s1)
             in Inr ([9989], resultText, s2)
         else if responseType = JStr (asc ''ui'')
           then Inr ([55356, 57256], js_or answer (JStr [26679, 24335, 24050, 26356, 26032]), s)
         else if truthy answer then Inr ([55357, 56481], answer, s)
         else if result = JNull \<or> result = JUndefined
           then Inr ([55357, 56481], JStr [26597, 35810, 23436, 25104], s)
         else if result = JObject then legacy closure s
         else Inr ([55357, 56481], JStr (js_String result), s))"

definition not_loading :: "chat list \<Rightarrow> chat list" where
  \<comment> \<open>\<open>prev.filter(m => !m.isLoading)\<close>\<close>
  "not_loading ms = filter (\<lambda>msg. \<not> chat_isLoading msg) ms"

definition analysing :: chat where
  \<comment> \<open>the placeholder "AI is analysing...", after an hourglass\<close>
  "analysing = \<lparr>role = asc ''assistant'',
                 content = [9203, 32, 65, 73, 32, 27491, 22312, 20998, 26512, 22788, 29702,
                            46, 46, 46],
                 chat_isLoading = True, responseType = None\<rparr>"

definition query_failed :: "jsstring \<Rightarrow> jsstring" where
  \<comment> \<open>the template "request failed: ${err.message}", after a cross\<close>
  "query_failed e = [10007, 32, 35831, 27714, 22833, 36133, 58, 32] @ e"

definition handleSendMessage ::
  "backend \<Rightarrow> (app \<Rightarrow> app \<Rightarrow> dispatched) \<Rightarrow> app \<Rightarrow> app" where
  "handleSendMessage be legacy s =
     (if js_trim (inputValue s) = [] \<or> isLoading s then s
      else
        let userMessage = inputValue s;
            s1 = say \<lparr>role = asc ''user'', content = userMessage, chat_isLoading = False,
                      responseType = None\<rparr> s;
            s2 = s1\<lparr>inputValue := [], isLoading := True\<rparr>;
            s3 = say analysing s2;
            s4 = send (PostQuery userMessage) s3;
            s5 = (case on_query be userMessage of
                    Failed e \<Rightarrow>
                      s4\<lparr>messages := not_loading (messages s4) @ [assistant (query_failed e)]\<rparr>
                  | Json data \<Rightarrow>
                      let s6 = s4\<lparr>messages := not_loading (messages s4)\<rparr>
                      in if truthy (query_success data) then
                           (case dispatch be legacy (query_payload data) s s6 of
                              Inl (e, s7) \<Rightarrow>
                                s7\<lparr>messages := not_loading (messages s7)
                                                 @ [assistant (query_failed e)]\<rparr>
                            | Inr (icon, resultText, s7) \<Rightarrow>
                                say \<lparr>role = asc ''assistant'',
                                     content = icon @ [32] @ js_String resultText,
                                     chat_isLoading = False,
                                     responseType =
                                       Some (js_or (data_response_type (query_payload data))
                                               (JStr (asc ''answer'')))\<rparr> s7)
                         else say (assistant ([10007, 32] @ js_String (query_message data))) s6)
        in s5\<lparr>isLoading := False\<rparr>)"

section \<open>Notions of the specification\<close>

definition clamp :: "nat \<Rightarrow> nat \<Rightarrow> nat \<Rightarrow> nat" where
  \<comment> \<open>\<open>clamp(x, lo, hi)\<close>\<close>
  "clamp x lo hi = max lo (min x hi)"

definition max_text_width :: "grid \<Rightarrow> nat \<Rightarrow> nat" where
  \<comment> \<open>the largest text width observed in column \<open>c\<close> over the first 100 rows\<close>
  "max_text_width data c =
     Max (set (map (\<lambda>r. text_width data r c) [0..<min (length data) 100]))"

fun logged_commands :: "console_entry list \<Rightarrow> command list" where
  \<comment> \<open>the commands the executor received, in the order it received them\<close>
  "logged_commands [] = []"
| "logged_commands (LogCommand c # es) = c # logged_commands es"
| "logged_commands (e # es) = logged_commands es"

fun logged_results :: "console_entry list \<Rightarrow> result list" where
  \<comment> \<open>the results the poller obtained, in the order it obtained them\<close>
  "logged_results [] = []"
| "logged_results (LogResult r # es) = r # logged_results es"
| "logged_results (e # es) = logged_results es"

text \<open>
  What the executor does with one command, as a function of the sheet handle it finds: the
  handle it leaves and the result it returns. Executing a list of commands one after the
  other, in the order of the list, is \<open>fold window_after\<close>.
\<close>

definition window_after :: "command \<Rightarrow> window \<Rightarrow> window" where
  "window_after cmd w = window (snd (executeUICommand cmd \<lparr>window = w, console = []\<rparr>))"

definition result_on :: "command \<Rightarrow> window \<Rightarrow> result" where
  "result_on cmd w = fst (executeUICommand cmd \<lparr>window = w, console = []\<rparr>)"

section \<open>Sample inputs\<close>

definition text_cell :: "string \<Rightarrow> cell option" where
  "text_cell s = Some \<lparr>v = JStr (asc s), m = JStr (asc s)\<rparr>"

definition number_cell :: "int \<Rightarrow> cell option" where
  "number_cell n = Some \<lparr>v = JNum n, m = JStr (string_of_int n)\<rparr>"

definition ages_grid :: grid where
  "ages_grid =
     [[text_cell ''name'', text_cell ''age'', None],
      [text_cell ''ann'', number_cell 25, None],
      [text_cell ''bartholomew-maximilian-alexander'', number_cell 35, None],
      [text_cell ''cy'', number_cell 40, None]]"

definition ages_sheet :: engine where
  "ages_sheet = \<lparr>getSheetData = Some ages_grid, calls = []\<rparr>"

definition pink :: jsval where
  "pink = JStr (asc ''#ffcccc'')"

definition explode_command :: command where
  "explode_command = [(asc ''action'', JStr (asc ''explode''))]"

definition show_command :: command where
  "show_command = [(asc ''action'', JStr (asc ''showAllRows''))]"

definition border_command :: command where
  "border_command = [(asc ''action'', JStr (asc ''setBorder'')),
                     (asc ''type'', JStr (asc ''all'')),
                     (asc ''outerStyle'', JStr (asc ''thick''))]"

definition thick_border :: border_value where
  "thick_border = \<lparr>rangeType = asc ''range'', borderType = asc ''border-all'',
                    style = Weight 3, borderColor = asc ''#000000''\<rparr>"

definition sample_batch :: pending where
  \<comment> \<open>an unknown command first, and the same command twice around another one\<close>
  "sample_batch =
     \<lparr>pending_success = JBool True,
      pending_commands =
        Some [explode_command, show_command, border_command, show_command]\<rparr>"

definition sample_ui :: ui where
  "sample_ui = \<lparr>window = Some ages_sheet, console = []\<rparr>"

definition fresh_app :: app where
  "fresh_app =
     \<lparr>activeTab = JStr (asc ''sales''), tables = [], sheetData = InitialSheet, messages = [],
      inputValue = asc ''drop empty rows'', isLoading = False, showConfirmModal = False,
      confirmData = None, saveAsName = [], alerts = [], appConsole = [], requests = []\<rparr>"

definition pending_app :: app where
  "pending_app =
     fresh_app\<lparr>showConfirmModal := True,
               confirmData := Some \<lparr>temp_table = JStr (asc ''t_ai_temp_1''),
                                     answer = JStr (asc ''done'')\<rparr>\<rparr>"

definition staged_reply :: query_reply where
  "staged_reply =
     \<lparr>query_success = JBool True, query_message = JUndefined,
      query_payload = \<lparr>data_response_type = JStr (asc ''data''),
                        data_answer = JStr (asc ''done''),
                        data_explanation = JUndefined,
                        data_temp_table = JStr (asc ''t_ai_temp_1''),
                        data_result = JNull\<rparr>\<rparr>"

definition refusing_backend :: backend where
  \<comment> \<open>stages every query, refuses every overwrite, cannot be reached for a deletion\<close>
  "refusing_backend =
     \<lparr>on_query = (\<lambda>q. Json staged_reply),
      on_tables = Failed (asc ''Failed to fetch''),
      on_view = (\<lambda>t. Failed (asc ''Failed to fetch'')),
      on_overwrite = (\<lambda>a b. Json \<lparr>ack_success = JBool False,
                                    ack_message = JStr (asc ''locked'')\<rparr>),
      on_delete = (\<lambda>t. Failed (asc ''Failed to fetch''))\<rparr>"

definition no_legacy :: "app \<Rightarrow> app \<Rightarrow> dispatched" where
  "no_legacy closure s = Inl ([], s)"

section \<open>The loops of the capability layer\<close>

lemma find_column_None:
  "find_column h n c = None \<longleftrightarrow> (\<forall>j. c \<le> j \<and> j < length h \<longrightarrow> \<not> header_matches h n j)"
proof (induct h n c rule: find_column.induct)
  case (1 headerRow columnName c)
  note IH = this
  show ?case
  proof (cases "c < length headerRow")
    case False
    then show ?thesis by (subst find_column.simps) auto
  next
    case True
    show ?thesis
    proof (cases "header_matches headerRow columnName c")
      case hit: True
      then show ?thesis using True by (subst find_column.simps) auto
    next
      case miss: False
      have "(\<forall>j. c \<le> j \<and> j < length headerRow \<longrightarrow> \<not> header_matches headerRow columnName j)
            \<longleftrightarrow> (\<forall>j. Suc c \<le> j \<and> j < length headerRow
                      \<longrightarrow> \<not> header_matches headerRow columnName j)"
        using miss by (metis Suc_leI le_neq_implies_less Suc_leD)
      then show ?thesis using True miss IH[OF True miss]
        by (subst find_column.simps) simp
    qed
  qed
qed

text \<open>The first match wins: the index found is the least one whose header reads as the name.\<close>

lemma find_column_Some:
  "find_column h n c = Some i \<longleftrightarrow>
     (c \<le> i \<and> i < length h \<and> header_matches h n i
      \<and> (\<forall>j. c \<le> j \<and> j < i \<longrightarrow> \<not> header_matches h n j))"
proof (induct h n c rule: find_column.induct)
  case (1 headerRow columnName c)
  note IH = this
  show ?case
  proof (cases "c < length headerRow")
    case False
    then show ?thesis by (subst find_column.simps) auto
  next
    case True
    show ?thesis
    proof (cases "header_matches headerRow columnName c")
      case hit: True
      have "find_column headerRow columnName c = Some c"
        using True hit by (subst find_column.simps) simp
      moreover have "(c \<le> i \<and> i < length headerRow \<and> header_matches headerRow columnName i
          \<and> (\<forall>j. c \<le> j \<and> j < i \<longrightarrow> \<not> header_matches headerRow columnName j))
          \<longleftrightarrow> i = c"
        using True hit by (metis le_neq_implies_less order_refl not_less)
      ultimately show ?thesis by auto
    next
      case miss: False
      have a: "find_column headerRow columnName c = find_column headerRow columnName (Suc c)"
        using True miss by (subst find_column.simps) simp
      have "(c \<le> i \<and> i < length headerRow \<and> header_matches headerRow columnName i
          \<and> (\<forall>j. c \<le> j \<and> j < i \<longrightarrow> \<not> header_matches headerRow columnName j))
         \<longleftrightarrow> (Suc c \<le> i \<and> i < length headerRow \<and> header_matches headerRow columnName i
          \<and> (\<forall>j. Suc c \<le> j \<and> j < i \<longrightarrow> \<not> header_matches headerRow columnName j))"
        using miss by (metis Suc_leI le_neq_implies_less Suc_leD)
      then show ?thesis using a IH[OF True miss] by simp
    qed
  qed
qed

lemma Max_insert_max:
  "finite S \<Longrightarrow> Max (insert (max a b) S) = Max (insert (a::nat) (insert b S))"
  by (cases "S = {}") (simp_all add: max.assoc)

lemma width_loop_eq:
  "r \<le> min (length data) 100 \<Longrightarrow>
   width_loop data c r mw =
     Max (insert mw ((\<lambda>r. min (text_width data r c) 300) ` {r..<min (length data) 100}))"
proof (induct data c r mw rule: width_loop.induct)
  case (1 data c r maxWidth)
  note IH = this
  show ?case
  proof (cases "r < min (length data) 100")
    case False
    then have e: "{r..<min (length data) 100} = {}" by auto
    have "width_loop data c r maxWidth = maxWidth"
      using False by (subst width_loop.simps) (simp only: if_False)
    then show ?thesis unfolding e by simp
  next
    case True
    have s: "{r..<min (length data) 100} = insert r {Suc r..<min (length data) 100}"
      using True by auto
    have "width_loop data c r maxWidth
          = width_loop data c (Suc r) (max maxWidth (min (text_width data r c) 300))"
      using True by (subst width_loop.simps) simp
    also have "\<dots> = Max (insert (max maxWidth (min (text_width data r c) 300))
                       ((\<lambda>r. min (text_width data r c) 300)
                          ` {Suc r..<min (length data) 100}))"
      using IH(1)[OF True] True by simp
    also have "\<dots> = Max (insert maxWidth
                       ((\<lambda>r. min (text_width data r c) 300) ` {r..<min (length data) 100}))"
      unfolding s image_insert by (rule Max_insert_max) simp
    finally show ?thesis .
  qed
qed

lemma min_Max_commute:
  "finite S \<Longrightarrow> S \<noteq> {} \<Longrightarrow> Max ((\<lambda>x. min x (k::nat)) ` S) = min (Max S) k"
  by (rule mono_Max_commute [symmetric]) (auto simp: mono_def min_def)

text \<open>The running maximum of the inner loop is the clamp of the overall maximum.\<close>

lemma width_loop_clamp:
  assumes "data \<noteq> []"
  shows "width_loop data c 0 50 = clamp (max_text_width data c) 50 300"
proof -
  let ?N = "min (length data) 100"
  let ?S = "(\<lambda>r. text_width data r c) ` {0..<?N}"
  have ne: "?S \<noteq> {}" using assms by (cases data) auto
  have "width_loop data c 0 50
        = Max (insert 50 ((\<lambda>r. min (text_width data r c) 300) ` {0..<?N}))"
    by (rule width_loop_eq) simp
  also have "(\<lambda>r. min (text_width data r c) 300) ` {0..<?N} = (\<lambda>x. min x 300) ` ?S"
    by (simp add: image_image)
  also have "Max (insert 50 ((\<lambda>x. min x 300) ` ?S)) = max 50 (Max ((\<lambda>x. min x 300) ` ?S))"
    using ne by simp
  also have "Max ((\<lambda>x. min x 300) ` ?S) = min (Max ?S) 300"
    using ne by (intro min_Max_commute) simp_all
  finally show ?thesis by (simp add: clamp_def max_text_width_def)
qed

lemma autofit_loop_eq:
  "autofit_loop data colCount c sheet =
     sheet\<lparr>calls := calls sheet
              @ map (\<lambda>c. SetColumnWidth [c] (width_loop data c 0 50)) [c..<colCount]\<rparr>"
proof (induct data colCount c sheet rule: autofit_loop.induct)
  case (1 data colCount c sheet)
  note IH = this
  show ?case
  proof (cases "c < colCount")
    case False
    then show ?thesis by (subst autofit_loop.simps) simp
  next
    case True
    then have u: "[c..<colCount] = c # [Suc c..<colCount]" by (simp add: upt_conv_Cons)
    show ?thesis using True IH[OF True]
      by (subst autofit_loop.simps) (simp add: u request_def)
  qed
qed

lemma format_loop_eq:
  "format_loop data ci operator val col bg r acc =
     (fst acc + length (filter (\<lambda>r. matches operator (format_value (cell_at data r ci)) val)
                          [r..<length data]),
      (snd acc)\<lparr>calls := calls (snd acc)
         @ map (\<lambda>r. SetCellValue r ci (format_style col bg))
             (filter (\<lambda>r. matches operator (format_value (cell_at data r ci)) val)
                [r..<length data])\<rparr>)"
proof (induct data ci operator val col bg r acc rule: format_loop.induct)
  case (1 data ci operator val col bg r n sheet)
  note IH = this
  show ?case
  proof (cases "r < length data")
    case False
    then show ?thesis by (subst format_loop.simps) simp
  next
    case True
    then have u: "[r..<length data] = r # [Suc r..<length data]" by (simp add: upt_conv_Cons)
    show ?thesis
    proof (cases "matches operator (format_value (cell_at data r ci)) val")
      case mt: True
      show ?thesis using True mt IH(1)[OF True mt]
        by (subst format_loop.simps) (simp add: u request_def)
    next
      case mf: False
      show ?thesis using True mf IH(2)[OF True mf]
        by (subst format_loop.simps) (simp add: u)
    qed
  qed
qed

section \<open>Properties of the capability layer\<close>

text \<open>
  C4. With a sheet that has data, a column name that no header cell reads as (each header
  cell read as its value, else its display text, else the cell itself, converted to a
  string and compared for equality, from the left) makes each of the three column-addressed
  capabilities return a failure whose error text is the "cannot find column" label followed
  by that name; the engine is asked for nothing and the sheet is as before.
\<close>

theorem column_not_found_reported:
  assumes "getSheetData sheet = Some data" and "data \<noteq> []"
    and "\<forall>c < length (data ! 0).
           JStr (js_String (header_text (row_at (data ! 0) c))) \<noteq> columnName"
  shows "setConditionalFormat columnName operator val col bg (Some sheet)
           = (\<lparr>success = False, message = None,
               error = Some ([25214, 19981, 21040, 21015, 58, 32] @ js_String columnName)\<rparr>,
              Some sheet)
       \<and> hideRowsWhere columnName cont (Some sheet)
           = (\<lparr>success = False, message = None,
               error = Some ([25214, 19981, 21040, 21015, 58, 32] @ js_String columnName)\<rparr>,
              Some sheet)
       \<and> sortByColumn columnName asc0 (Some sheet)
           = (\<lparr>success = False, message = None,
               error = Some ([25214, 19981, 21040, 21015, 58, 32] @ js_String columnName)\<rparr>,
              Some sheet)"
proof -
  have "find_column (data ! 0) columnName 0 = None"
    using assms(3) by (simp add: find_column_None header_matches_def)
  then show ?thesis using assms(1,2)
    by (simp add: setConditionalFormat_def hideRowsWhere_def sortByColumn_def
                  fail_def column_not_found_def)
qed

lemma ages_header_reads:
  "js_String (header_text (row_at (ages_grid ! 0) 0)) = asc ''name''"
  "js_String (header_text (row_at (ages_grid ! 0) (Suc 0))) = asc ''age''"
  "js_String (header_text (row_at (ages_grid ! 0) 2)) = asc ''null''"
  by (simp_all add: ages_grid_def row_at_def header_text_def js_or_def text_cell_def asc_def)

text \<open>
  An empty header cell is \<open>null\<close>, which has neither field and reads as the text "null":
  that is the name the lookup finds it under.
\<close>

lemma empty_header_cell_reads_null:
  "find_column (ages_grid ! 0) (JStr (asc ''null'')) 0 = Some 2"
  using ages_header_reads
  by (simp add: find_column_Some header_matches_def ages_grid_def asc_def less_Suc_eq
                numeral_2_eq_2)

lemma ages_grid_shape:
  "length ages_grid = 4" "length (ages_grid ! 0) = 3" "ages_grid \<noteq> []"
  "first_row_length ages_grid = 3"
  by (simp_all add: ages_grid_def first_row_length_def)

theorem column_not_found_reported_witness:
  "setConditionalFormat (JStr (asc ''salary'')) (JStr (asc ''>'')) (JNum 30) JNull pink
     (Some ages_sheet)
     = (\<lparr>success = False, message = None,
         error = Some ([25214, 19981, 21040, 21015, 58, 32] @ asc ''salary'')\<rparr>,
        Some ages_sheet)
   \<and> hideRowsWhere (JStr (asc ''salary'')) (JStr (asc ''x'')) (Some ages_sheet)
     = (\<lparr>success = False, message = None,
         error = Some ([25214, 19981, 21040, 21015, 58, 32] @ asc ''salary'')\<rparr>,
        Some ages_sheet)
   \<and> sortByColumn (JStr (asc ''salary'')) (JBool True) (Some ages_sheet)
     = (\<lparr>success = False, message = None,
         error = Some ([25214, 19981, 21040, 21015, 58, 32] @ asc ''salary'')\<rparr>,
        Some ages_sheet)"
proof -
  have h1: "getSheetData ages_sheet = Some ages_grid" by (simp add: ages_sheet_def)
  have h3: "\<forall>c < length (ages_grid ! 0).
              JStr (js_String (header_text (row_at (ages_grid ! 0) c))) \<noteq> JStr (asc ''salary'')"
  proof (intro allI impI)
    fix c assume "c < length (ages_grid ! 0)"
    then have "c = 0 \<or> c = Suc 0 \<or> c = 2" by (simp add: ages_grid_shape) arith
    then show "JStr (js_String (header_text (row_at (ages_grid ! 0) c))) \<noteq> JStr (asc ''salary'')"
      using ages_header_reads by (auto simp: asc_def)
  qed
  show ?thesis
    using column_not_found_reported [OF h1 ages_grid_shape(3) h3,
            of "JStr (asc ''>'')" "JNum 30" JNull pink "JStr (asc ''x'')" "JBool True"]
    by simp
qed

text \<open>
  C7. On a sheet of a header row and three data rows whose cells in the column found for
  "age" convert to the numbers 25, 35 and 40, \<open>setConditionalFormat("age", ">", 30, null,
  "#ffcccc")\<close> asks for the background style on rows 2 and 3 of that column and on no other
  cell, then for a refresh, and returns success with a message that counts 2 cells.
\<close>

theorem conditional_format_ages:
  assumes "getSheetData sheet = Some data" and "length data = 4"
    and "ci < length (data ! 0)"
    and "header_matches (data ! 0) (JStr (asc ''age'')) ci"
    and "\<forall>j < ci. \<not> header_matches (data ! 0) (JStr (asc ''age'')) j"
    and "js_Number (format_value (cell_at data 1 ci)) = Some 25"
    and "js_Number (format_value (cell_at data 2 ci)) = Some 35"
    and "js_Number (format_value (cell_at data 3 ci)) = Some 40"
  shows "setConditionalFormat (JStr (asc ''age'')) (JStr (asc ''>'')) (JNum 30) JNull
           (JStr (asc ''#ffcccc'')) (Some sheet)
         = (\<lparr>success = True,
             message = Some ([24050, 23545, 32] @ asc ''2''
                @ [32, 20010, 21333, 20803, 26684, 24212, 29992, 26465, 20214, 26684, 24335]),
             error = None\<rparr>,
            Some (sheet\<lparr>calls := calls sheet
                    @ [SetCellValue 2 ci [(asc ''bg'', JStr (asc ''#ffcccc''))],
                       SetCellValue 3 ci [(asc ''bg'', JStr (asc ''#ffcccc''))],
                       Refresh]\<rparr>))"
proof -
  have fc: "find_column (data ! 0) (JStr (asc ''age'')) 0 = Some ci"
    using assms(3,4,5) by (simp add: find_column_Some)
  have gt: "asc ''>'' \<noteq> asc ''<''" by (simp add: asc_def)
  have ma: "\<And>r. matches (JStr (asc ''>'')) (format_value (cell_at data r ci)) (JNum 30)
             = num_lt (Some 30) (js_Number (format_value (cell_at data r ci)))"
    using gt by (simp add: matches_def)
  have rows: "[1..<length data] = [1, 2, 3]"
    using assms(2) by (simp add: upt_rec)
  have hits: "filter (\<lambda>r. matches (JStr (asc ''>'')) (format_value (cell_at data r ci)) (JNum 30))
                [1..<length data] = [2, 3]"
    unfolding rows ma using assms(6,7,8) by (simp add: num_lt_def)
  have loop: "format_loop data ci (JStr (asc ''>'')) (JNum 30) JNull (JStr (asc ''#ffcccc'')) 1
                (0, sheet)
              = (2, sheet\<lparr>calls := calls sheet
                     @ [SetCellValue 2 ci [(asc ''bg'', JStr (asc ''#ffcccc''))],
                        SetCellValue 3 ci [(asc ''bg'', JStr (asc ''#ffcccc''))]]\<rparr>)"
    unfolding format_loop_eq hits by (simp add: format_style_def asc_def)
  have d2: "dec 2 = asc ''2''" by (simp add: dec.simps asc_def)
  have len: "length data \<noteq> 0" using assms(2) by simp
  show ?thesis
    unfolding setConditionalFormat_def dflt_def Let_def
    using assms(1) len fc loop
    by (simp add: request_def ok_def format_applied_def d2)
qed

lemma ages_column_values:
  "js_Number (format_value (cell_at ages_grid 1 1)) = Some 25"
  "js_Number (format_value (cell_at ages_grid 2 1)) = Some 35"
  "js_Number (format_value (cell_at ages_grid 3 1)) = Some 40"
  by (simp_all add: ages_grid_def cell_at_def row_at_def format_value_def js_coalesce_def
                    number_cell_def)

theorem conditional_format_ages_witness:
  "setConditionalFormat (JStr (asc ''age'')) (JStr (asc ''>'')) (JNum 30) JNull
     (JStr (asc ''#ffcccc'')) (Some ages_sheet)
   = (\<lparr>success = True,
       message = Some ([24050, 23545, 32] @ asc ''2''
          @ [32, 20010, 21333, 20803, 26684, 24212, 29992, 26465, 20214, 26684, 24335]),
       error = None\<rparr>,
      Some (ages_sheet\<lparr>calls := [SetCellValue 2 1 [(asc ''bg'', JStr (asc ''#ffcccc''))],
                                SetCellValue 3 1 [(asc ''bg'', JStr (asc ''#ffcccc''))],
                                Refresh]\<rparr>))"
proof -
  have h1: "getSheetData ages_sheet = Some ages_grid" by (simp add: ages_sheet_def)
  have h3: "1 < length (ages_grid ! 0)" by (simp add: ages_grid_shape)
  have h4: "header_matches (ages_grid ! 0) (JStr (asc ''age'')) 1"
    using ages_header_reads(2) by (simp add: header_matches_def)
  have h5: "\<forall>j < 1. \<not> header_matches (ages_grid ! 0) (JStr (asc ''age'')) j"
    using ages_header_reads(1) by (simp add: header_matches_def asc_def)
  have c0: "calls ages_sheet = []" by (simp add: ages_sheet_def)
  show ?thesis
    using conditional_format_ages [OF h1 ages_grid_shape(1) h3 h4 h5 ages_column_values]
    by (simp add: c0)
qed

text \<open>
  C8. On a sheet that has at least one row, \<open>autoFitColumnWidth\<close> asks, for each column
  of the first row in turn, for the width \<open>clamp(w, 50, 300)\<close> where \<open>w\<close> is the largest
  text width (ten per code unit of the cell's value, else display text, else the empty
  string, plus twenty) of that column over the first 100 rows, then for a refresh, and
  returns success.
\<close>

theorem autoFitColumnWidth_clamp:
  assumes "getSheetData sheet = Some data" and "data \<noteq> []"
  shows "autoFitColumnWidth (Some sheet) =
           (ok widths_adjusted,
            Some (sheet\<lparr>calls := calls sheet
                    @ map (\<lambda>c. SetColumnWidth [c] (clamp (max_text_width data c) 50 300))
                        [0..<first_row_length data]
                    @ [Refresh]\<rparr>))"
  using assms
  by (simp add: autoFitColumnWidth_def autofit_loop_eq width_loop_clamp request_def)

lemma ages_text_widths:
  "max_text_width ages_grid 0 = 340"
  "max_text_width ages_grid (Suc 0) = 50"
  "max_text_width ages_grid 2 = 20"
  by (simp_all add: max_text_width_def text_width_def ages_grid_def cell_at_def row_at_def
                    js_or_def text_cell_def number_cell_def asc_def upt_rec
                    string_of_int_def dec.simps)

theorem autoFitColumnWidth_clamp_witness:
  "autoFitColumnWidth (Some ages_sheet) =
     (ok widths_adjusted,
      Some (ages_sheet\<lparr>calls := [SetColumnWidth [0] 300, SetColumnWidth [1] 50,
                                SetColumnWidth [2] 50, Refresh]\<rparr>))"
proof -
  have h1: "getSheetData ages_sheet = Some ages_grid" by (simp add: ages_sheet_def)
  have c0: "calls ages_sheet = []" by (simp add: ages_sheet_def)
  have cols: "[0..<first_row_length ages_grid] = [0, 1, 2]"
    by (simp add: ages_grid_shape upt_rec)
  show ?thesis
    using autoFitColumnWidth_clamp [OF h1 ages_grid_shape(3)]
    by (simp add: c0 cols ages_text_widths clamp_def)
qed

text \<open>
  C9 as stated does not hold: without a sheet handle \<open>showAllRows\<close> returns a failure.
\<close>

theorem showAllRows_absent_sheet_fails:
  "success (fst (showAllRows None)) = False"
  by (simp add: showAllRows_def fail_def)

text \<open>
  C9, as the code has it. \<open>showAllRows\<close> returns the failure "Sheet not available" and
  changes nothing when the sheet handle is absent; with a handle whose data is an array of
  \<open>n\<close> rows, the empty array included, it asks the engine to show the rows \<open>0, ..., n-1\<close>
  and returns success.
\<close>

theorem showAllRows_behaviour:
  "showAllRows None = (fail sheet_not_available, None)
   \<and> (getSheetData sheet = Some data \<longrightarrow>
        showAllRows (Some sheet)
          = (ok all_rows_shown,
             Some (sheet\<lparr>calls := calls sheet @ [ShowRow [0..<length data]]\<rparr>)))"
  by (simp add: showAllRows_def request_def)

text \<open>
  When the engine has no data array to give, reading its length raises and the \<open>catch\<close>
  returns the failure; nothing is asked of the engine.
\<close>

lemma showAllRows_null_data:
  "getSheetData sheet = None \<Longrightarrow> showAllRows (Some sheet) = (fail length_of_null, Some sheet)"
  by (simp add: showAllRows_def)

theorem showAllRows_behaviour_witness:
  "showAllRows None = (fail sheet_not_available, None)
   \<and> showAllRows (Some ages_sheet)
       = (ok all_rows_shown, Some (ages_sheet\<lparr>calls := [ShowRow [0, 1, 2, 3]]\<rparr>))"
proof -
  have h1: "getSheetData ages_sheet = Some ages_grid" by (simp add: ages_sheet_def)
  have c0: "calls ages_sheet = []" by (simp add: ages_sheet_def)
  have r: "[0..<length ages_grid] = [0, 1, 2, 3]" by (simp add: ages_grid_shape upt_rec)
  show ?thesis
    using showAllRows_behaviour [of ages_sheet ages_grid] h1 by (simp add: c0 r)
qed

text \<open>The border never depends on \<open>innerStyle\<close>, which the body does not read.\<close>

lemma setBorder_ignores_innerStyle:
  "setBorder type outerStyle innerStyle w = setBorder type outerStyle innerStyle' w"
  by (simp add: setBorder_def Let_def)

lemma border_weight_table:
  "border_weight (JStr (asc ''thin'')) = Weight 1"
  "border_weight (JStr (asc ''medium'')) = Weight 2"
  "border_weight (JStr (asc ''thick'')) = Weight 3"
  by (simp_all add: border_weight_def styleMap_get_def styleMap_def asc_def)

lemma border_weight_fallback:
  assumes "js_String k \<notin> {asc ''thin'', asc ''medium'', asc ''thick''}"
    and "js_String k \<notin> set object_prototype_members"
  shows "border_weight k = Weight 2"
  using assms by (simp add: border_weight_def styleMap_get_def styleMap_def)

text \<open>
  C10, at the outer style "constructor". The keyword is none of thin, medium and thick,
  yet the style handed to the engine is not the weight 2: \<open>styleMap["constructor"]\<close> finds
  the member that the table inherits, which is truthy, so the fallback is not taken.
\<close>

theorem setBorder_inherited_key:
  "setBorder (JStr (asc ''all'')) (JStr (asc ''constructor'')) (JStr (asc ''thin''))
     (Some \<lparr>getSheetData = Some [[None]], calls = []\<rparr>)
   = (ok (border_added (JStr (asc ''all''))),
      Some \<lparr>getSheetData = Some [[None]],
            calls = [SetRangeShow (0, 0) (0, 0),
                     SetBorderInfo \<lparr>rangeType = asc ''range'', borderType = asc ''border-all'',
                                    style = Inherited (asc ''constructor''),
                                    borderColor = asc ''#000000''\<rparr>]\<rparr>)"
  by (simp add: setBorder_def dflt_def first_row_length_def request_def border_type_def
                border_weight_def styleMap_get_def styleMap_def object_prototype_members_def
                asc_def)

section \<open>Properties of the executor and the poller\<close>

text \<open>
  C5. A command whose action is none of the nine capability names makes the executor
  return, as a value, the failure whose error text is the "unknown command" label followed
  by the action; the sheet handle is not touched, and the console receives the command and
  a warning.
\<close>

theorem unknown_command_rejected:
  assumes "field cmd ''action'' \<notin> (\<lambda>n. JStr (asc n)) ` set capability_names"
  shows "executeUICommand cmd st
           = (\<lparr>success = False, message = None,
               error = Some ([26410, 30693, 21629, 20196, 58, 32]
                             @ js_String (field cmd ''action''))\<rparr>,
              st\<lparr>console := console st
                     @ [LogCommand cmd, WarnUnknown (field cmd ''action'')]\<rparr>)"
  using assms
  by (simp add: executeUICommand_def capability_names_def Let_def log_def fail_def
                unknown_command_def)

lemma explode_action: "field explode_command ''action'' = JStr (asc ''explode'')"
  by (simp add: field_def explode_command_def asc_def)

lemma show_action: "field show_command ''action'' = JStr (asc ''showAllRows'')"
  by (simp add: field_def show_command_def asc_def)

theorem unknown_command_rejected_witness:
  "executeUICommand explode_command sample_ui
     = (\<lparr>success = False, message = None,
         error = Some ([26410, 30693, 21629, 20196, 58, 32] @ asc ''explode'')\<rparr>,
        sample_ui\<lparr>console := [LogCommand explode_command,
                                WarnUnknown (JStr (asc ''explode''))]\<rparr>)"
proof -
  have h: "field explode_command ''action'' \<notin> (\<lambda>n. JStr (asc n)) ` set capability_names"
    unfolding explode_action by (simp add: capability_names_def asc_def)
  have c0: "console sample_ui = []" by (simp add: sample_ui_def)
  show ?thesis
    using unknown_command_rejected [OF h, of sample_ui]
    by (simp add: explode_action c0)
qed

lemma logged_commands_append:
  "logged_commands (xs @ ys) = logged_commands xs @ logged_commands ys"
  by (induct xs rule: logged_commands.induct) simp_all

lemma logged_results_append:
  "logged_results (xs @ ys) = logged_results xs @ logged_results ys"
  by (induct xs rule: logged_results.induct) simp_all

lemma run_console: "console (snd (run capability st)) = console st"
  by (simp add: run_def split: prod.splits)

lemma executeUICommand_console:
  "console (snd (executeUICommand cmd st)) = console st @ [LogCommand cmd]
   \<or> console (snd (executeUICommand cmd st))
       = console st @ [LogCommand cmd, WarnUnknown (field cmd ''action'')]"
  by (simp add: executeUICommand_def Let_def run_console log_def)

lemma executeUICommand_logs:
  "logged_commands (console (snd (executeUICommand cmd st)))
     = logged_commands (console st) @ [cmd]"
  "logged_results (console (snd (executeUICommand cmd st))) = logged_results (console st)"
  using executeUICommand_console [of cmd st]
  by (auto simp: logged_commands_append logged_results_append)

lemma run_commands_append:
  "run_commands (xs @ ys) st = run_commands ys (run_commands xs st)"
  by (induct xs arbitrary: st) (simp_all split: prod.splits)

lemma run_commands_snoc:
  "run_commands (xs @ [c]) st =
     log (LogResult (fst (executeUICommand c (run_commands xs st))))
       (snd (executeUICommand c (run_commands xs st)))"
  by (simp add: run_commands_append split: prod.splits)

lemma run_commands_logged_commands:
  "logged_commands (console (run_commands cmds st)) = logged_commands (console st) @ cmds"
  by (induct cmds rule: rev_induct)
     (simp_all add: run_commands_snoc log_def logged_commands_append executeUICommand_logs)

lemma run_commands_logged_results:
  "logged_results (console (run_commands cmds st))
     = logged_results (console st)
       @ map (\<lambda>i. fst (executeUICommand (cmds ! i) (run_commands (take i cmds) st)))
           [0..<length cmds]"
proof (induct cmds rule: rev_induct)
  case Nil
  then show ?case by simp
next
  case (snoc c cs)
  have "map (\<lambda>i. fst (executeUICommand ((cs @ [c]) ! i) (run_commands (take i (cs @ [c])) st)))
          [0..<length cs]
        = map (\<lambda>i. fst (executeUICommand (cs ! i) (run_commands (take i cs) st)))
            [0..<length cs]"
    by (rule map_cong) (simp_all add: nth_append)
  then show ?case using snoc
    by (simp add: run_commands_snoc log_def logged_results_append executeUICommand_logs)
qed

text \<open>
  The executor reads and changes nothing but the sheet handle, apart from what it writes to
  the console.
\<close>

lemma run_fst: "fst (run capability st) = fst (capability (window st))"
  by (simp add: run_def split: prod.splits)

lemma run_window: "window (snd (run capability st)) = snd (capability (window st))"
  by (simp add: run_def split: prod.splits)

lemma executeUICommand_on_window:
  "fst (executeUICommand cmd st) = result_on cmd (window st)"
  "window (snd (executeUICommand cmd st)) = window_after cmd (window st)"
  by (simp_all add: result_on_def window_after_def executeUICommand_def Let_def
                    run_fst run_window log_def)

lemma run_commands_window:
  "window (run_commands cmds st) = fold window_after cmds (window st)"
  by (induct cmds arbitrary: st)
     (simp_all add: case_prod_beta log_def executeUICommand_on_window)

lemma run_commands_results_on_windows:
  "logged_results (console (run_commands cmds st))
     = logged_results (console st)
       @ map (\<lambda>i. result_on (cmds ! i) (fold window_after (take i cmds) (window st)))
           [0..<length cmds]"
  by (simp add: run_commands_logged_results executeUICommand_on_window run_commands_window)

text \<open>
  C6. When a poll tick fetches a batch, the sheet handle the tick leaves is the one obtained
  by executing the commands of the batch one after the other in the fetched order, each on
  the handle left by the one before it; the commands the executor receives during the tick
  are the commands of the batch, each once and in that order; and the results obtained
  are, position by position, the result of the command of that position on the handle left
  by the commands before it, whatever their results were: no command is skipped, merged
  with another or run twice, also after a failure.
\<close>

theorem poll_batch_in_order:
  assumes "truthy (pending_success data)" and "pending_commands data = Some cmds"
  shows "window (pollUICommands (Json data) st) = fold window_after cmds (window st)
       \<and> logged_commands (console (pollUICommands (Json data) st))
           = logged_commands (console st) @ cmds
       \<and> logged_results (console (pollUICommands (Json data) st))
           = logged_results (console st)
             @ map (\<lambda>i. result_on (cmds ! i) (fold window_after (take i cmds) (window st)))
                 [0..<length cmds]"
proof (cases "cmds = []")
  case True
  then show ?thesis using assms by (simp add: pollUICommands_def)
next
  case False
  then have "pollUICommands (Json data) st
             = run_commands cmds (log (LogReceived (length cmds)) st)"
    using assms by (simp add: pollUICommands_def)
  then show ?thesis
    by (simp add: run_commands_window run_commands_logged_commands
                  run_commands_results_on_windows log_def
                  logged_commands_append logged_results_append)
qed

lemma exec_explode:
  "executeUICommand explode_command st
     = (fail (unknown_command (JStr (asc ''explode''))),
        st\<lparr>console := console st @ [LogCommand explode_command,
                                       WarnUnknown (JStr (asc ''explode''))]\<rparr>)"
  by (simp add: executeUICommand_def Let_def explode_action log_def asc_def)

lemma exec_show:
  assumes "window st = Some sh" and "getSheetData sh = Some d"
  shows "executeUICommand show_command st
     = (ok all_rows_shown,
        st\<lparr>console := console st @ [LogCommand show_command],
           window := Some (sh\<lparr>calls := calls sh @ [ShowRow [0..<length d]]\<rparr>)\<rparr>)"
  using assms
  by (simp add: executeUICommand_def Let_def show_action log_def run_def asc_def
                showAllRows_def request_def)

lemma border_fields:
  "field border_command ''action'' = JStr (asc ''setBorder'')"
  "field border_command ''type'' = JStr (asc ''all'')"
  "field border_command ''outerStyle'' = JStr (asc ''thick'')"
  "field border_command ''innerStyle'' = JUndefined"
  by (simp_all add: field_def border_command_def asc_def)

lemma on_explode:
  "window_after explode_command w = w"
  "result_on explode_command w = fail (unknown_command (JStr (asc ''explode'')))"
  by (simp_all add: window_after_def result_on_def exec_explode)

lemma on_show:
  "getSheetData sh = Some ages_grid \<Longrightarrow>
     window_after show_command (Some sh)
       = Some (sh\<lparr>calls := calls sh @ [ShowRow [0, 1, 2, 3]]\<rparr>)"
  "getSheetData sh = Some ages_grid \<Longrightarrow> result_on show_command (Some sh) = ok all_rows_shown"
  by (simp_all add: window_after_def result_on_def
        exec_show [where sh = sh and d = ages_grid] ages_grid_shape upt_rec)

lemma on_border:
  "getSheetData sh = Some ages_grid \<Longrightarrow>
     window_after border_command (Some sh)
       = Some (sh\<lparr>calls := calls sh
                 @ [SetRangeShow (0, 3) (0, 2), SetBorderInfo thick_border]\<rparr>)"
  "getSheetData sh = Some ages_grid \<Longrightarrow>
     result_on border_command (Some sh) = ok (border_added (JStr (asc ''all'')))"
  by (simp_all add: window_after_def result_on_def executeUICommand_def Let_def border_fields
        log_def run_def setBorder_def dflt_def ages_grid_shape request_def border_type_def
        border_weight_def styleMap_get_def styleMap_def thick_border_def asc_def)

theorem poll_batch_in_order_witness:
  "window (pollUICommands (Json sample_batch) sample_ui)
     = Some (ages_sheet\<lparr>calls := [ShowRow [0, 1, 2, 3], SetRangeShow (0, 3) (0, 2),
                                SetBorderInfo thick_border, ShowRow [0, 1, 2, 3]]\<rparr>)
   \<and> logged_commands (console (pollUICommands (Json sample_batch) sample_ui))
     = [explode_command, show_command, border_command, show_command]
   \<and> logged_results (console (pollUICommands (Json sample_batch) sample_ui))
     = [fail (unknown_command (JStr (asc ''explode''))), ok all_rows_shown,
        ok (border_added (JStr (asc ''all''))), ok all_rows_shown]"
proof -
  have h1: "truthy (pending_success sample_batch)" by (simp add: sample_batch_def)
  have h2: "pending_commands sample_batch
            = Some [explode_command, show_command, border_command, show_command]"
    by (simp add: sample_batch_def)
  have c0: "console sample_ui = []" "window sample_ui = Some ages_sheet"
    by (simp_all add: sample_ui_def)
  have g: "getSheetData ages_sheet = Some ages_grid" "calls ages_sheet = []"
    by (simp_all add: ages_sheet_def)
  have idx: "[0..<length [explode_command, show_command, border_command, show_command]]
             = [0, 1, 2, 3]"
    by (simp add: upt_rec)
  show ?thesis
    using poll_batch_in_order [OF h1 h2, of sample_ui]
    unfolding idx
    by (simp add: c0 g on_explode on_show on_border)
qed

section \<open>Properties of the dispatcher and of the confirmation protocol\<close>

text \<open>
  C1. When a message is sent and the backend answers with a successful response of kind
  "data" that carries a non-empty temp table name, the dispatch stores one confirmation
  request made of that name and of the response's answer, opens the modal, shows as its
  last message the answer followed by the pending-confirmation marker, and sends nothing
  but the query itself: the table list, the sheet on display and the active table are as
  before.
\<close>

theorem data_with_temp_table_opens_confirmation:
  assumes "js_trim (inputValue s) \<noteq> []" and "\<not> isLoading s"
    and "on_query be (inputValue s) = Json reply"
    and "truthy (query_success reply)"
    and "data_response_type (query_payload reply) = JStr (asc ''data'')"
    and "data_temp_table (query_payload reply) = JStr t" and "t \<noteq> []"
  shows "confirmData (handleSendMessage be legacy s)
           = Some \<lparr>temp_table = JStr t, answer = response_answer (query_payload reply)\<rparr>
       \<and> showConfirmModal (handleSendMessage be legacy s)
       \<and> last (messages (handleSendMessage be legacy s))
           = \<lparr>role = asc ''assistant'',
              content = [9989, 32] @ js_String (response_answer (query_payload reply))
                        @ [32, 40, 31561, 24453, 30830, 35748, 46, 46, 46, 41],
              chat_isLoading = False, responseType = Some (JStr (asc ''data''))\<rparr>
       \<and> requests (handleSendMessage be legacy s) = requests s @ [PostQuery (inputValue s)]
       \<and> tables (handleSendMessage be legacy s) = tables s
       \<and> sheetData (handleSendMessage be legacy s) = sheetData s
       \<and> activeTab (handleSendMessage be legacy s) = activeTab s"
proof -
  have d: "asc ''data'' \<noteq> []" "asc ''data'' \<noteq> asc ''clarify''" "asc ''data'' \<noteq> asc ''error''"
    by (simp_all add: asc_def)
  let ?a = "response_answer (query_payload reply)"
  let ?s4 = "send (PostQuery (inputValue s))
               (say analysing
                 ((say \<lparr>role = asc ''user'', content = inputValue s, chat_isLoading = False,
                        responseType = None\<rparr> s)\<lparr>inputValue := [], isLoading := True\<rparr>))"
  let ?s6 = "?s4\<lparr>messages := not_loading (messages ?s4)\<rparr>"
  have disp: "dispatch be legacy (query_payload reply) s ?s6
        = Inr ([9989], JStr (js_String ?a @ pending_marker),
               ?s6\<lparr>appConsole := appConsole ?s6 @ [Intercepted (JStr t)],
                    confirmData := Some \<lparr>temp_table = JStr t, answer = ?a\<rparr>,
                    saveAsName := replace_first t (asc ''t_ai_temp_'') [26032, 34920, 26684, 95],
                    showConfirmModal := True\<rparr>)"
    using assms(5,6,7) d by (simp add: dispatch_def Let_def js_or_def)
  show ?thesis
    unfolding handleSendMessage_def Let_def
    using assms(1,2,3,4,5) disp d
    by (simp add: say_def send_def pending_marker_def js_or_def)
qed

theorem data_with_temp_table_opens_confirmation_witness:
  "confirmData (handleSendMessage refusing_backend no_legacy fresh_app)
     = Some \<lparr>temp_table = JStr (asc ''t_ai_temp_1''), answer = JStr (asc ''done'')\<rparr>
   \<and> showConfirmModal (handleSendMessage refusing_backend no_legacy fresh_app)
   \<and> last (messages (handleSendMessage refusing_backend no_legacy fresh_app))
       = \<lparr>role = asc ''assistant'',
          content = [9989, 32] @ asc ''done''
                    @ [32, 40, 31561, 24453, 30830, 35748, 46, 46, 46, 41],
          chat_isLoading = False, responseType = Some (JStr (asc ''data''))\<rparr>
   \<and> requests (handleSendMessage refusing_backend no_legacy fresh_app)
       = [PostQuery (asc ''drop empty rows'')]
   \<and> tables (handleSendMessage refusing_backend no_legacy fresh_app) = []
   \<and> sheetData (handleSendMessage refusing_backend no_legacy fresh_app) = InitialSheet
   \<and> activeTab (handleSendMessage refusing_backend no_legacy fresh_app) = JStr (asc ''sales'')"
proof -
  have h1: "js_trim (inputValue fresh_app) \<noteq> []"
    by (simp add: fresh_app_def js_trim_def is_ws_def asc_def)
  have h2: "\<not> isLoading fresh_app" by (simp add: fresh_app_def)
  have h3: "on_query refusing_backend (inputValue fresh_app) = Json staged_reply"
    by (simp add: refusing_backend_def)
  have h4: "truthy (query_success staged_reply)" by (simp add: staged_reply_def)
  have h5: "data_response_type (query_payload staged_reply) = JStr (asc ''data'')"
    by (simp add: staged_reply_def)
  have h6: "data_temp_table (query_payload staged_reply) = JStr (asc ''t_ai_temp_1'')"
    by (simp add: staged_reply_def)
  have h7: "asc ''t_ai_temp_1'' \<noteq> []" by (simp add: asc_def)
  have a: "response_answer (query_payload staged_reply) = JStr (asc ''done'')"
    by (simp add: response_answer_def staged_reply_def js_or_def asc_def)
  show ?thesis
    using data_with_temp_table_opens_confirmation [OF h1 h2 h3 h4 h5 h6 h7, of no_legacy]
    by (simp add: a fresh_app_def)
qed

text \<open>
  C2. When a confirmation is pending and the overwrite request fails in transport or is
  answered with a falsy \<open>success\<close>, the Commit handler leaves the confirmation pending:
  the stored request and the open modal are as before, and so are the table list, the sheet
  on display, the active table and the messages; the only request sent, if any, is the
  overwrite itself.
\<close>

theorem overwrite_failure_keeps_pending:
  assumes "PendingConfirmation s" and "confirmData s = Some cd"
    and "case on_overwrite be (temp_table cd) (activeTab s) of
           Failed e \<Rightarrow> True
         | Json data \<Rightarrow> \<not> truthy (ack_success data)"
  shows "PendingConfirmation (handleConfirmOverwrite be s)
       \<and> confirmData (handleConfirmOverwrite be s) = confirmData s
       \<and> showConfirmModal (handleConfirmOverwrite be s)
       \<and> tables (handleConfirmOverwrite be s) = tables s
       \<and> sheetData (handleConfirmOverwrite be s) = sheetData s
       \<and> activeTab (handleConfirmOverwrite be s) = activeTab s
       \<and> messages (handleConfirmOverwrite be s) = messages s
       \<and> requests (handleConfirmOverwrite be s)
           = requests s @ (if truthy (activeTab s)
                           then [PostOverwrite (temp_table cd) (activeTab s)] else [])"
  using assms
  by (auto simp: handleConfirmOverwrite_def PendingConfirmation_def Let_def send_def
           split: fetched.splits)

theorem overwrite_failure_keeps_pending_witness:
  "PendingConfirmation (handleConfirmOverwrite refusing_backend pending_app)
   \<and> confirmData (handleConfirmOverwrite refusing_backend pending_app)
       = Some \<lparr>temp_table = JStr (asc ''t_ai_temp_1''), answer = JStr (asc ''done'')\<rparr>
   \<and> showConfirmModal (handleConfirmOverwrite refusing_backend pending_app)
   \<and> tables (handleConfirmOverwrite refusing_backend pending_app) = []
   \<and> sheetData (handleConfirmOverwrite refusing_backend pending_app) = InitialSheet
   \<and> activeTab (handleConfirmOverwrite refusing_backend pending_app) = JStr (asc ''sales'')
   \<and> messages (handleConfirmOverwrite refusing_backend pending_app) = []
   \<and> requests (handleConfirmOverwrite refusing_backend pending_app)
       = [PostOverwrite (JStr (asc ''t_ai_temp_1'')) (JStr (asc ''sales''))]"
proof -
  let ?cd = "\<lparr>temp_table = JStr (asc ''t_ai_temp_1''), answer = JStr (asc ''done'')\<rparr>"
  have h1: "PendingConfirmation pending_app"
    by (simp add: PendingConfirmation_def pending_app_def)
  have h2: "confirmData pending_app = Some ?cd" by (simp add: pending_app_def)
  have h3: "case on_overwrite refusing_backend (temp_table ?cd) (activeTab pending_app) of
              Failed e \<Rightarrow> True
            | Json data \<Rightarrow> \<not> truthy (ack_success data)"
    by (simp add: refusing_backend_def)
  have t: "truthy (activeTab pending_app)"
    by (simp add: pending_app_def fresh_app_def asc_def)
  show ?thesis
    using overwrite_failure_keeps_pending [OF h1 h2 h3] t
    by (simp add: pending_app_def fresh_app_def)
qed

text \<open>
  The modal is never open without a stored request: this holds initially and every handler
  keeps it, the dispatcher as long as the rendering of structured results does.
\<close>

lemma initial_modal_backed: "modal_backed initial_app" "Idle initial_app"
  by (simp_all add: modal_backed_def Idle_def initial_app_def)

lemma states_modal_backed:
  "Idle s \<Longrightarrow> modal_backed s" "PendingConfirmation s \<Longrightarrow> modal_backed s"
  by (simp_all add: modal_backed_def Idle_def PendingConfirmation_def)

lemma loadTableData_confirm:
  "showConfirmModal (loadTableData be t s) = showConfirmModal s"
  "confirmData (loadTableData be t s) = confirmData s"
  by (simp_all add: loadTableData_def Let_def send_def split: fetched.splits)

lemma loadTables_confirm:
  "showConfirmModal (loadTables be c s) = showConfirmModal s"
  "confirmData (loadTables be c s) = confirmData s"
  by (simp_all add: loadTables_def Let_def send_def loadTableData_confirm split: fetched.splits)

lemma overwrite_keeps_modal_backed:
  "modal_backed s \<Longrightarrow> modal_backed (handleConfirmOverwrite be s)"
  by (auto simp: modal_backed_def handleConfirmOverwrite_def Let_def send_def say_def
                 loadTableData_confirm loadTables_confirm
           split: option.splits fetched.splits)

lemma cancel_keeps_modal_backed:
  "modal_backed s \<Longrightarrow> modal_backed (handleConfirmCancel be s)"
  by (auto simp: modal_backed_def handleConfirmCancel_def Let_def send_def say_def
           split: option.splits fetched.splits)

lemma dispatch_keeps_modal_backed:
  assumes "modal_backed s"
    and "\<And>c s. modal_backed s \<Longrightarrow>
           (case legacy c s of Inl (e, s') \<Rightarrow> modal_backed s'
                             | Inr (i, t, s') \<Rightarrow> modal_backed s')"
  shows "case dispatch be legacy d c s of
           Inl (e, s') \<Rightarrow> modal_backed s' | Inr (i, t, s') \<Rightarrow> modal_backed s'"
proof -
  have l: "case legacy c s of Inl (e, s') \<Rightarrow> modal_backed s'
                            | Inr (i, t, s') \<Rightarrow> modal_backed s'"
    using assms by blast
  show ?thesis
    using assms(1) l
    by (auto simp: dispatch_def Let_def modal_backed_def loadTableData_confirm
                   loadTables_confirm
             split: jsval.splits sum.splits prod.splits)
qed

lemma send_keeps_modal_backed:
  assumes "modal_backed s"
    and "\<And>c s. modal_backed s \<Longrightarrow>
           (case legacy c s of Inl (e, s') \<Rightarrow> modal_backed s'
                             | Inr (i, t, s') \<Rightarrow> modal_backed s')"
  shows "modal_backed (handleSendMessage be legacy s)"
proof (cases "js_trim (inputValue s) = [] \<or> isLoading s")
  case True
  then show ?thesis using assms(1) by (auto simp: handleSendMessage_def)
next
  case False
  let ?s4 = "send (PostQuery (inputValue s))
               (say analysing
                 ((say \<lparr>role = asc ''user'', content = inputValue s, chat_isLoading = False,
                        responseType = None\<rparr> s)\<lparr>inputValue := [], isLoading := True\<rparr>))"
  let ?s6 = "?s4\<lparr>messages := not_loading (messages ?s4)\<rparr>"
  have b: "modal_backed ?s6" using assms(1) by (simp add: modal_backed_def say_def send_def)
  have m: "\<And>s f. modal_backed (s\<lparr>messages := f\<rparr>) = modal_backed s"
          "\<And>s f. modal_backed (s\<lparr>isLoading := f\<rparr>) = modal_backed s"
          "\<And>s c. modal_backed (say c s) = modal_backed s"
    by (simp_all add: modal_backed_def say_def)
  have d: "case dispatch be legacy x s ?s6 of
             Inl (e, s') \<Rightarrow> modal_backed s' | Inr (i, t, s') \<Rightarrow> modal_backed s'" for x
    by (rule dispatch_keeps_modal_backed [OF b assms(2)])
  show ?thesis
  proof (cases "on_query be (inputValue s)")
    case (Failed e)
    then show ?thesis using False b
      unfolding handleSendMessage_def Let_def by (simp add: m)
  next
    case (Json data)
    show ?thesis
    proof (cases "truthy (query_success data)")
      case ok: True
      show ?thesis using False Json ok d [of "query_payload data"]
        unfolding handleSendMessage_def Let_def
        by (auto simp: m split: sum.splits prod.splits)
    next
      case no: False
      then show ?thesis using False Json b
        unfolding handleSendMessage_def Let_def by (simp add: m)
    qed
  qed
qed

text \<open>
  C3. In every state in which the modal is not open without a stored request, so in Idle
  and in PendingConfirmation, the Discard handler ends in Idle whatever the backend does
  with the deletion request; and from Idle it returns the state it was given, so that
  nothing is changed and no request is sent.
\<close>

theorem discard_always_idle:
  assumes "modal_backed s"
  shows "Idle (handleConfirmCancel be s)
       \<and> (Idle s \<longrightarrow> handleConfirmCancel be s = s)"
  using assms
  by (auto simp: handleConfirmCancel_def Idle_def modal_backed_def Let_def say_def send_def
           split: option.splits fetched.splits)

theorem discard_always_idle_witness:
  "Idle (handleConfirmCancel refusing_backend pending_app)
   \<and> requests (handleConfirmCancel refusing_backend pending_app)
       = [DeleteTable (asc ''t_ai_temp_1'')]
   \<and> Idle (handleConfirmCancel refusing_backend fresh_app)
   \<and> handleConfirmCancel refusing_backend fresh_app = fresh_app"
proof -
  have h1: "modal_backed pending_app"
    by (simp add: modal_backed_def pending_app_def)
  have h2: "modal_backed fresh_app"
    by (simp add: modal_backed_def fresh_app_def)
  have i: "Idle fresh_app" by (simp add: Idle_def fresh_app_def)
  have r: "requests (handleConfirmCancel refusing_backend pending_app)
           = [DeleteTable (asc ''t_ai_temp_1'')]"
    by (simp add: handleConfirmCancel_def pending_app_def fresh_app_def Let_def send_def
                  say_def refusing_backend_def)
  show ?thesis
    using discard_always_idle [OF h1, of refusing_backend]
          discard_always_idle [OF h2, of refusing_backend] i r
    by simp
qed


end
